theory Spec2Isabelle
  imports Main "HOL-Library.Word" "HOL-Library.Char_ord" "HOL-Library.List_Lexorder"
begin

unbundle bit_operations_syntax

section \<open>Strings and string pieces\<close>

text \<open>
  A \<open>StringPiece\<close> is a pointer and a length into UTF-8 bytes; it is a \<open>string\<close>
  (a list of bytes) here, and \<open>substr(offset, size - offset)\<close> is \<open>drop offset\<close>.
\<close>

text \<open>
  Modelled from the spec: \<open>util::trimWhitespace\<close> (util/Util.h) is called by the parsers
  below and is not part of the sources. The spec speaks of an "all-whitespace" string
  and of trimmed text: \<open>trimWhitespace\<close> drops the whitespace characters of C's
  \<open>isspace\<close> from both ends of the piece.
\<close>

definition isspace :: "char \<Rightarrow> bool" where
  "isspace c = (c = CHR 0x20 \<or> c = CHR 0x09 \<or> c = CHR 0x0A \<or> c = CHR 0x0B
                \<or> c = CHR 0x0C \<or> c = CHR 0x0D)"

definition trimWhitespace :: "string \<Rightarrow> string" where
  "trimWhitespace str = rev (dropWhile isspace (rev (dropWhile isspace str)))"

text \<open>
  Modelled from the spec: \<open>util::tokenize\<close> (util/Util.h) is not part of the sources
  either. The functions that call it take it as the parameter \<open>tokenizer\<close>, from the text
  and the separator to the tokens in order, and what is proved of them holds for every
  tokenizer. The examples run with \<open>tokenize\<close>, which gives the spec's "\<open>|\<close>-separated
  tokens": the pieces between the separators.
\<close>

fun tokenize :: "string \<Rightarrow> char \<Rightarrow> string list" where
  "tokenize [] sep = [[]]"
| "tokenize (c # cs) sep =
     (if c = sep then [] # tokenize cs sep
      else (case tokenize cs sep of
              [] \<Rightarrow> [[c]]
            | t # ts \<Rightarrow> (c # t) # ts))"

section \<open>Resource names and values\<close>

text \<open>
  Modelled from the spec: the enum \<open>ResourceType\<close> (Resource.h) is not part of the
  sources; these are the kinds that the sources name (\<open>ResourceType::kAttr\<close>, ...)
  together with \<open>layout\<close> and \<open>xml\<close>, which the spec gives as examples of resource
  kinds.
\<close>

datatype ResourceType =
  kArray | kAttr | kAttrPrivate | kBool | kColor | kDimen | kDrawable | kFraction
  | kId | kInteger | kLayout | kPlurals | kRaw | kString | kStyle | kStyleable | kXml

record ResourceName =
  package :: string
  type :: ResourceType
  entry :: string

datatype ReferenceType = kResource | kAttribute

record Reference =
  name :: ResourceName
  referenceType :: ReferenceType
  privateReference :: bool

text \<open>
  \<open>android::Res_value\<close>: the type tag and the 32-bit data word. The constants are those
  of the platform header androidfw/ResourceTypes.h, which the sources include.
\<close>

record Res_value =
  dataType :: "8 word"
  data :: "32 word"

definition Res_value_TYPE_NULL :: "8 word" where "Res_value_TYPE_NULL = 0x00"
definition Res_value_TYPE_REFERENCE :: "8 word" where "Res_value_TYPE_REFERENCE = 0x01"
definition Res_value_TYPE_ATTRIBUTE :: "8 word" where "Res_value_TYPE_ATTRIBUTE = 0x02"
definition Res_value_TYPE_STRING :: "8 word" where "Res_value_TYPE_STRING = 0x03"
definition Res_value_TYPE_FLOAT :: "8 word" where "Res_value_TYPE_FLOAT = 0x04"
definition Res_value_TYPE_DIMENSION :: "8 word" where "Res_value_TYPE_DIMENSION = 0x05"
definition Res_value_TYPE_FRACTION :: "8 word" where "Res_value_TYPE_FRACTION = 0x06"
definition Res_value_TYPE_DYNAMIC_REFERENCE :: "8 word" where
  "Res_value_TYPE_DYNAMIC_REFERENCE = 0x07"
definition Res_value_TYPE_INT_DEC :: "8 word" where "Res_value_TYPE_INT_DEC = 0x10"
definition Res_value_TYPE_INT_HEX :: "8 word" where "Res_value_TYPE_INT_HEX = 0x11"
definition Res_value_TYPE_INT_BOOLEAN :: "8 word" where "Res_value_TYPE_INT_BOOLEAN = 0x12"
definition Res_value_TYPE_INT_COLOR_ARGB8 :: "8 word" where
  "Res_value_TYPE_INT_COLOR_ARGB8 = 0x1c"
definition Res_value_TYPE_INT_COLOR_RGB8 :: "8 word" where
  "Res_value_TYPE_INT_COLOR_RGB8 = 0x1d"
definition Res_value_TYPE_INT_COLOR_ARGB4 :: "8 word" where
  "Res_value_TYPE_INT_COLOR_ARGB4 = 0x1e"
definition Res_value_TYPE_INT_COLOR_RGB4 :: "8 word" where
  "Res_value_TYPE_INT_COLOR_RGB4 = 0x1f"

definition DATA_NULL_EMPTY :: "32 word" where "DATA_NULL_EMPTY = 1"

text \<open>\<open>android::ResTable_map\<close>: the bits of an accepted-type mask.\<close>

definition TYPE_REFERENCE :: "32 word" where "TYPE_REFERENCE = 0x1"
definition TYPE_STRING :: "32 word" where "TYPE_STRING = 0x2"
definition TYPE_INTEGER :: "32 word" where "TYPE_INTEGER = 0x4"
definition TYPE_BOOLEAN :: "32 word" where "TYPE_BOOLEAN = 0x8"
definition TYPE_COLOR :: "32 word" where "TYPE_COLOR = 0x10"
definition TYPE_FLOAT :: "32 word" where "TYPE_FLOAT = 0x20"
definition TYPE_DIMENSION :: "32 word" where "TYPE_DIMENSION = 0x40"
definition TYPE_FRACTION :: "32 word" where "TYPE_FRACTION = 0x80"
definition TYPE_ENUM :: "32 word" where "TYPE_ENUM = 0x10000"
definition TYPE_FLAGS :: "32 word" where "TYPE_FLAGS = 0x20000"

text \<open>\<open>android::Res_value value = { }\<close>: every field zero.\<close>

definition zeroValue :: Res_value where
  "zeroValue = \<lparr>dataType = 0, data = 0\<rparr>"

record AttributeSymbol =
  symbol :: Reference
  symbolValue :: "32 word"

record Attribute =
  typeMask :: "32 word"
  symbols :: "AttributeSymbol list"

section \<open>ResourceUtils: the sentinels\<close>

definition tryParseNullOrEmpty :: "string \<Rightarrow> Res_value option" where
  "tryParseNullOrEmpty str =
     (let trimmedStr = trimWhitespace str; val = zeroValue in
      if trimmedStr = ''@null'' then
        Some (val\<lparr>dataType := Res_value_TYPE_REFERENCE\<rparr>)
      else if trimmedStr = ''@empty'' then
        Some (val\<lparr>dataType := Res_value_TYPE_NULL, data := DATA_NULL_EMPTY\<rparr>)
      else None)"

section \<open>ResourceUtils: references\<close>

text \<open>
  \<open>extractResourceName\<close>: one pass over the piece. \<open>cur\<close> holds the bytes from \<open>start\<close> up
  to the current position; a \<open>/\<close> closes the type while the type is still empty, a \<open>:\<close>
  closes the package while the package is still empty. The three out-pieces are empty
  when the callers below pass them in.
\<close>

fun extractLoop ::
  "string \<Rightarrow> string \<Rightarrow> string \<Rightarrow> bool \<Rightarrow> bool \<Rightarrow> string
    \<Rightarrow> string \<times> string \<times> string \<times> bool \<times> bool" where
  "extractLoop [] outPackage outType hasPackageSeparator hasTypeSeparator cur =
     (outPackage, outType, cur, hasPackageSeparator, hasTypeSeparator)"
| "extractLoop (c # cs) outPackage outType hasPackageSeparator hasTypeSeparator cur =
     (if outType = [] \<and> c = CHR ''/'' then
        extractLoop cs outPackage cur hasPackageSeparator True []
      else if outPackage = [] \<and> c = CHR '':'' then
        extractLoop cs cur outType True hasTypeSeparator []
      else
        extractLoop cs outPackage outType hasPackageSeparator hasTypeSeparator (cur @ [c]))"

text \<open>Result: the returned flag, then \<open>outPackage\<close>, \<open>outType\<close> and \<open>outEntry\<close>.\<close>

definition extractResourceName :: "string \<Rightarrow> bool \<times> string \<times> string \<times> string" where
  "extractResourceName str =
     (case extractLoop str [] [] False False [] of
        (outPackage, outType, outEntry, hasPackageSeparator, hasTypeSeparator) \<Rightarrow>
          (\<not> (hasPackageSeparator \<and> outPackage = []) \<and> \<not> (hasTypeSeparator \<and> outType = []),
           outPackage, outType, outEntry))"

text \<open>
  \<open>parseResourceType\<close> (Resource.cpp) is not part of the sources: the functions that call it take
  it as the parameter \<open>prt\<close>, from the type's text to the resource type, if there is one.
  \<open>parseResourceName\<close> gives \<open>outRef\<close> and \<open>outPrivate\<close> when it returns true.
\<close>

definition parseResourceName ::
  "(string \<Rightarrow> ResourceType option) \<Rightarrow> string \<Rightarrow> (ResourceName \<times> bool) option" where
  "parseResourceName prt str =
     (if str = [] then None
      else
        let priv = (hd str = CHR ''*'');
            offset = (if priv then 1 else 0) in
        (case extractResourceName (drop offset str) of
           (ok, packagePiece, typePiece, entryPiece) \<Rightarrow>
             if \<not> ok then None
             else (case prt typePiece of
                     None \<Rightarrow> None
                   | Some parsedType \<Rightarrow>
                       if entryPiece = [] then None
                       else Some (\<lparr>package = packagePiece, type = parsedType,
                                    entry = entryPiece\<rparr>, priv))))"

text \<open>
  \<open>parseReference\<close> gives \<open>outRef\<close>, \<open>outCreate\<close> and \<open>outPrivate\<close> when it returns true.
  For the one-byte piece \<open>@\<close> the source reads \<open>data()[1]\<close>, the byte after the piece; the
  piece left for \<open>parseResourceName\<close> is empty whatever that byte is, and the parse fails.
\<close>

definition parseReference ::
  "(string \<Rightarrow> ResourceType option) \<Rightarrow> string \<Rightarrow> (ResourceName \<times> bool \<times> bool) option" where
  "parseReference prt str =
     (let trimmedStr = trimWhitespace str in
      if trimmedStr = [] then None
      else if hd trimmedStr = CHR ''@'' then
        let create = (take 1 (drop 1 trimmedStr) = ''+'');
            offset = (if create then 2 else 1) in
        (case parseResourceName prt (drop offset trimmedStr) of
           None \<Rightarrow> None
         | Some (parsedName, priv) \<Rightarrow>
             if create \<and> priv then None
             else if create \<and> type parsedName \<noteq> kId then None
             else Some (parsedName, create, priv))
      else None)"

definition isReference :: "(string \<Rightarrow> ResourceType option) \<Rightarrow> string \<Rightarrow> bool" where
  "isReference prt str = (parseReference prt str \<noteq> None)"

definition parseAttributeReference :: "string \<Rightarrow> ResourceName option" where
  "parseAttributeReference str =
     (let trimmedStr = trimWhitespace str in
      if trimmedStr = [] then None
      else if hd trimmedStr = CHR ''?'' then
        (case extractResourceName (drop 1 trimmedStr) of
           (ok, packagePiece, typePiece, entryPiece) \<Rightarrow>
             if \<not> ok then None
             else if typePiece \<noteq> [] \<and> typePiece \<noteq> ''attr'' then None
             else if entryPiece = [] then None
             else Some \<lparr>package = packagePiece, type = kAttr, entry = entryPiece\<rparr>)
      else None)"

text \<open>
  \<open>tryParseReference\<close>: the reference, and the value written through \<open>outCreate\<close>.
\<close>

definition tryParseReference ::
  "(string \<Rightarrow> ResourceType option) \<Rightarrow> string \<Rightarrow> (Reference \<times> bool) option" where
  "tryParseReference prt str =
     (case parseReference prt str of
        Some (ref, create, privateRef) \<Rightarrow>
          Some (\<lparr>name = ref, referenceType = kResource, privateReference = privateRef\<rparr>,
                create)
      | None \<Rightarrow>
          (case parseAttributeReference str of
             Some ref \<Rightarrow>
               Some (\<lparr>name = ref, referenceType = kAttribute, privateReference = False\<rparr>,
                     False)
           | None \<Rightarrow> None))"

section \<open>ResourceUtils: enum and flag symbols\<close>

fun tryParseEnumSymbolLoop :: "AttributeSymbol list \<Rightarrow> string \<Rightarrow> Res_value option" where
  "tryParseEnumSymbolLoop [] trimmedStr = None"
| "tryParseEnumSymbolLoop (s # ss) trimmedStr =
     (if trimmedStr = entry (name (symbol s)) then
        Some (zeroValue\<lparr>dataType := Res_value_TYPE_INT_DEC, data := symbolValue s\<rparr>)
      else tryParseEnumSymbolLoop ss trimmedStr)"

definition tryParseEnumSymbol :: "Attribute \<Rightarrow> string \<Rightarrow> Res_value option" where
  "tryParseEnumSymbol enumAttr str =
     tryParseEnumSymbolLoop (symbols enumAttr) (trimWhitespace str)"

text \<open>
  The inner loop of \<open>tryParseFlagSymbol\<close>: the value of the first symbol whose entry is
  the trimmed part (\<open>flagSet\<close> and \<open>break\<close>), or nothing when \<open>flagSet\<close> stays false.
\<close>

fun findFlagSymbol :: "AttributeSymbol list \<Rightarrow> string \<Rightarrow> 32 word option" where
  "findFlagSymbol [] trimmedPart = None"
| "findFlagSymbol (s # ss) trimmedPart =
     (if trimmedPart = entry (name (symbol s)) then Some (symbolValue s)
      else findFlagSymbol ss trimmedPart)"

text \<open>The outer loop, over the parts; \<open>flags\<close> is \<open>flags.data\<close>.\<close>

fun flagSymbolLoop :: "AttributeSymbol list \<Rightarrow> string list \<Rightarrow> 32 word \<Rightarrow> 32 word option" where
  "flagSymbolLoop syms [] flags = Some flags"
| "flagSymbolLoop syms (part # parts) flags =
     (case findFlagSymbol syms (trimWhitespace part) of
        None \<Rightarrow> None
      | Some v \<Rightarrow> flagSymbolLoop syms parts (flags OR v))"

definition tryParseFlagSymbol ::
  "(string \<Rightarrow> char \<Rightarrow> string list) \<Rightarrow> Attribute \<Rightarrow> string \<Rightarrow> Res_value option" where
  "tryParseFlagSymbol tokenizer flagAttr str =
     (let flags = zeroValue\<lparr>dataType := Res_value_TYPE_INT_HEX, data := 0\<rparr> in
      if trimWhitespace str = [] then Some flags
      else (case flagSymbolLoop (symbols flagAttr) (tokenizer str CHR ''|'')
                   (data flags) of
              None \<Rightarrow> None
            | Some d \<Rightarrow> Some (flags\<lparr>data := d\<rparr>)))"

section \<open>ResourceUtils: colors and booleans\<close>

text \<open>
  \<open>parseHex\<close>: the digit's value, and whether \<open>*outError\<close> is set by this call.
\<close>

definition parseHex :: "char \<Rightarrow> 32 word \<times> bool" where
  "parseHex c =
     (let n = (of_char c :: nat) in
      if of_char CHR ''0'' \<le> n \<and> n \<le> of_char CHR ''9'' then
        (of_nat (n - of_char CHR ''0''), False)
      else if of_char CHR ''a'' \<le> n \<and> n \<le> of_char CHR ''f'' then
        (of_nat (n - of_char CHR ''a'' + 0xa), False)
      else if of_char CHR ''A'' \<le> n \<and> n \<le> of_char CHR ''F'' then
        (of_nat (n - of_char CHR ''A'' + 0xa), False)
      else (0xffffffff, True))"

definition hexAt :: "string \<Rightarrow> nat \<Rightarrow> 32 word" where
  "hexAt start i = fst (parseHex (start ! i))"

definition hexErrorAt :: "string \<Rightarrow> nat \<Rightarrow> bool" where
  "hexErrorAt start i = snd (parseHex (start ! i))"

text \<open>
  \<open>tryParseColor\<close>: \<open>error\<close> is set when one of the calls of \<open>parseHex\<close> sets it; every
  index read is below \<open>len\<close>.
\<close>

definition tryParseColor :: "string \<Rightarrow> Res_value option" where
  "tryParseColor str =
     (let start = trimWhitespace str; len = length start in
      if len = 0 \<or> start ! 0 \<noteq> CHR ''#'' then None
      else if len = 4 then
        (let v = \<lparr>dataType = Res_value_TYPE_INT_COLOR_RGB4,
                  data = 0xff000000
                    OR push_bit 20 (hexAt start 1) OR push_bit 16 (hexAt start 1)
                    OR push_bit 12 (hexAt start 2) OR push_bit 8 (hexAt start 2)
                    OR push_bit 4 (hexAt start 3) OR hexAt start 3\<rparr>;
             error = (hexErrorAt start 1 \<or> hexErrorAt start 2 \<or> hexErrorAt start 3)
         in if error then None else Some v)
      else if len = 5 then
        (let v = \<lparr>dataType = Res_value_TYPE_INT_COLOR_ARGB4,
                  data = 0
                    OR push_bit 28 (hexAt start 1) OR push_bit 24 (hexAt start 1)
                    OR push_bit 20 (hexAt start 2) OR push_bit 16 (hexAt start 2)
                    OR push_bit 12 (hexAt start 3) OR push_bit 8 (hexAt start 3)
                    OR push_bit 4 (hexAt start 4) OR hexAt start 4\<rparr>;
             error = (hexErrorAt start 1 \<or> hexErrorAt start 2 \<or> hexErrorAt start 3
                      \<or> hexErrorAt start 4)
         in if error then None else Some v)
      else if len = 7 then
        (let v = \<lparr>dataType = Res_value_TYPE_INT_COLOR_RGB8,
                  data = 0xff000000
                    OR push_bit 20 (hexAt start 1) OR push_bit 16 (hexAt start 2)
                    OR push_bit 12 (hexAt start 3) OR push_bit 8 (hexAt start 4)
                    OR push_bit 4 (hexAt start 5) OR hexAt start 6\<rparr>;
             error = (hexErrorAt start 1 \<or> hexErrorAt start 2 \<or> hexErrorAt start 3
                      \<or> hexErrorAt start 4 \<or> hexErrorAt start 5 \<or> hexErrorAt start 6)
         in if error then None else Some v)
      else if len = 9 then
        (let v = \<lparr>dataType = Res_value_TYPE_INT_COLOR_ARGB8,
                  data = 0
                    OR push_bit 28 (hexAt start 1) OR push_bit 24 (hexAt start 2)
                    OR push_bit 20 (hexAt start 3) OR push_bit 16 (hexAt start 4)
                    OR push_bit 12 (hexAt start 5) OR push_bit 8 (hexAt start 6)
                    OR push_bit 4 (hexAt start 7) OR hexAt start 8\<rparr>;
             error = (hexErrorAt start 1 \<or> hexErrorAt start 2 \<or> hexErrorAt start 3
                      \<or> hexErrorAt start 4 \<or> hexErrorAt start 5 \<or> hexErrorAt start 6
                      \<or> hexErrorAt start 7 \<or> hexErrorAt start 8)
         in if error then None else Some v)
      else None)"

definition parseBool :: "string \<Rightarrow> bool option" where
  "parseBool str =
     (let trimmedStr = trimWhitespace str in
      if trimmedStr = ''true'' \<or> trimmedStr = ''TRUE'' \<or> trimmedStr = ''True'' then Some True
      else if trimmedStr = ''false'' \<or> trimmedStr = ''FALSE'' \<or> trimmedStr = ''False''
      then Some False
      else None)"

definition tryParseBool :: "string \<Rightarrow> Res_value option" where
  "tryParseBool str =
     (case parseBool str of
        Some maybeResult \<Rightarrow>
          Some (zeroValue\<lparr>dataType := Res_value_TYPE_INT_BOOLEAN,
                          data := (if maybeResult then 0xffffffff else 0)\<rparr>)
      | None \<Rightarrow> None)"

section \<open>ResourceUtils: items\<close>

text \<open>
  \<open>android::ResTable::stringToInt\<close> and \<open>stringToFloat\<close> belong to the platform library:
  \<open>tryParseInt\<close> and \<open>tryParseFloat\<close> return what they give, so the two are the
  parameters \<open>stringToInt\<close> and \<open>stringToFloat\<close>, partial maps from the text to the value.
\<close>

definition tryParseInt :: "(string \<rightharpoonup> Res_value) \<Rightarrow> string \<Rightarrow> Res_value option" where
  "tryParseInt stringToInt str = stringToInt str"

definition tryParseFloat :: "(string \<rightharpoonup> Res_value) \<Rightarrow> string \<Rightarrow> Res_value option" where
  "tryParseFloat stringToFloat str = stringToFloat str"

text \<open>
  \<open>androidTypeToAttributeTypeMask\<close> takes a \<open>uint16_t\<close>; the cases are the type tags,
  widened to 16 bits.
\<close>

definition androidTypeToAttributeTypeMask :: "16 word \<Rightarrow> 32 word" where
  "androidTypeToAttributeTypeMask t =
     (if t = ucast Res_value_TYPE_NULL \<or> t = ucast Res_value_TYPE_REFERENCE
         \<or> t = ucast Res_value_TYPE_ATTRIBUTE \<or> t = ucast Res_value_TYPE_DYNAMIC_REFERENCE
      then TYPE_REFERENCE
      else if t = ucast Res_value_TYPE_STRING then TYPE_STRING
      else if t = ucast Res_value_TYPE_FLOAT then TYPE_FLOAT
      else if t = ucast Res_value_TYPE_DIMENSION then TYPE_DIMENSION
      else if t = ucast Res_value_TYPE_FRACTION then TYPE_FRACTION
      else if t = ucast Res_value_TYPE_INT_DEC \<or> t = ucast Res_value_TYPE_INT_HEX
      then TYPE_INTEGER OR TYPE_ENUM OR TYPE_FLAGS
      else if t = ucast Res_value_TYPE_INT_BOOLEAN then TYPE_BOOLEAN
      else if t = ucast Res_value_TYPE_INT_COLOR_ARGB8
              \<or> t = ucast Res_value_TYPE_INT_COLOR_RGB8
              \<or> t = ucast Res_value_TYPE_INT_COLOR_ARGB4
              \<or> t = ucast Res_value_TYPE_INT_COLOR_RGB4
      then TYPE_COLOR
      else 0)"

datatype Item =
  ReferenceItem Reference
  | BinaryPrimitive Res_value
  | StringItem string
  | StyledString string "(string \<times> nat \<times> nat) list"
  | RawString string

text \<open>
  \<open>tryParseItemForAttribute\<close> with a type mask. The second component lists the names
  handed to \<open>onCreateReference\<close> (when the caller supplies one).
\<close>

definition tryParseItemForAttribute ::
  "(string \<Rightarrow> ResourceType option) \<Rightarrow> (string \<rightharpoonup> Res_value) \<Rightarrow> (string \<rightharpoonup> Res_value)
    \<Rightarrow> string \<Rightarrow> 32 word \<Rightarrow> Item option \<times> ResourceName list" where
  "tryParseItemForAttribute prt stringToInt stringToFloat val acceptedMask =
     (case tryParseNullOrEmpty val of
        Some nullOrEmpty \<Rightarrow> (Some (BinaryPrimitive nullOrEmpty), [])
      | None \<Rightarrow>
     (case tryParseReference prt val of
        Some (reference, create) \<Rightarrow>
          (Some (ReferenceItem reference), if create then [name reference] else [])
      | None \<Rightarrow>
     (case (if acceptedMask AND TYPE_COLOR \<noteq> 0 then tryParseColor val else None) of
        Some color \<Rightarrow> (Some (BinaryPrimitive color), [])
      | None \<Rightarrow>
     (case (if acceptedMask AND TYPE_BOOLEAN \<noteq> 0 then tryParseBool val else None) of
        Some boolean \<Rightarrow> (Some (BinaryPrimitive boolean), [])
      | None \<Rightarrow>
     (case (if acceptedMask AND TYPE_INTEGER \<noteq> 0 then tryParseInt stringToInt val else None) of
        Some integer \<Rightarrow> (Some (BinaryPrimitive integer), [])
      | None \<Rightarrow>
     (let floatMask = TYPE_FLOAT OR TYPE_DIMENSION OR TYPE_FRACTION in
      case (if acceptedMask AND floatMask \<noteq> 0 then tryParseFloat stringToFloat val else None) of
        Some floatingPoint \<Rightarrow>
          if acceptedMask
               AND androidTypeToAttributeTypeMask (ucast (dataType floatingPoint)) \<noteq> 0
          then (Some (BinaryPrimitive floatingPoint), [])
          else (None, [])
      | None \<Rightarrow> (None, [])))))))"

text \<open>\<open>tryParseItemForAttribute\<close> with an attribute: then its enum and flag symbols.\<close>

definition tryParseItemForAttr ::
  "(string \<Rightarrow> ResourceType option) \<Rightarrow> (string \<rightharpoonup> Res_value) \<Rightarrow> (string \<rightharpoonup> Res_value)
    \<Rightarrow> (string \<Rightarrow> char \<Rightarrow> string list) \<Rightarrow> string \<Rightarrow> Attribute
    \<Rightarrow> Item option \<times> ResourceName list" where
  "tryParseItemForAttr prt stringToInt stringToFloat tokenizer str attr =
     (case tryParseItemForAttribute prt stringToInt stringToFloat str (typeMask attr) of
        (Some v, created) \<Rightarrow> (Some v, created)
      | (None, created) \<Rightarrow>
     (case (if typeMask attr AND TYPE_ENUM \<noteq> 0 then tryParseEnumSymbol attr str else None) of
        Some enumValue \<Rightarrow> (Some (BinaryPrimitive enumValue), created)
      | None \<Rightarrow>
     (case (if typeMask attr AND TYPE_FLAGS \<noteq> 0
            then tryParseFlagSymbol tokenizer attr str else None) of
        Some flagValue \<Rightarrow> (Some (BinaryPrimitive flagValue), created)
      | None \<Rightarrow> (None, created))))"

section \<open>ResourceParser: dispatch on the element\<close>

definition parseFormatType :: "string \<Rightarrow> 32 word" where
  "parseFormatType piece =
     (if piece = ''reference'' then TYPE_REFERENCE
      else if piece = ''string'' then TYPE_STRING
      else if piece = ''integer'' then TYPE_INTEGER
      else if piece = ''boolean'' then TYPE_BOOLEAN
      else if piece = ''color'' then TYPE_COLOR
      else if piece = ''float'' then TYPE_FLOAT
      else if piece = ''dimension'' then TYPE_DIMENSION
      else if piece = ''fraction'' then TYPE_FRACTION
      else if piece = ''enum'' then TYPE_ENUM
      else if piece = ''flags'' then TYPE_FLAGS
      else 0)"

fun parseFormatAttributeLoop :: "string list \<Rightarrow> 32 word \<Rightarrow> 32 word" where
  "parseFormatAttributeLoop [] formatMask = formatMask"
| "parseFormatAttributeLoop (part # parts) formatMask =
     (let t = parseFormatType (trimWhitespace part) in
      if t = 0 then 0 else parseFormatAttributeLoop parts (formatMask OR t))"

definition parseFormatAttribute ::
  "(string \<Rightarrow> char \<Rightarrow> string list) \<Rightarrow> string \<Rightarrow> 32 word" where
  "parseFormatAttribute tokenizer str =
     parseFormatAttributeLoop (tokenizer str CHR ''|'') 0"

text \<open>
  The attributes of the element the pull parser stands on, by name.
  Modelled from the spec: \<open>xml::findNonEmptyAttribute\<close> (xml/XmlPullParser.h) is not
  part of the sources; it is the "attribute lookup by name" of the event stream, and gives nothing for
  an attribute that is absent or empty.
\<close>

definition findNonEmptyAttribute :: "(string \<rightharpoonup> string) \<Rightarrow> string \<Rightarrow> string option" where
  "findNonEmptyAttribute attrs attrName =
     (case attrs attrName of
        None \<Rightarrow> None
      | Some v \<Rightarrow> if v = [] then None else Some v)"

text \<open>The two tables of \<open>parseResource\<close>; of \<open>elToBagMap\<close>, the keys.\<close>

definition elToItemMap :: "(string \<times> ResourceType \<times> 32 word) list" where
  "elToItemMap =
     [(''bool'', kBool, TYPE_BOOLEAN),
      (''color'', kColor, TYPE_COLOR),
      (''dimen'', kDimen, TYPE_FLOAT OR TYPE_FRACTION OR TYPE_DIMENSION),
      (''drawable'', kDrawable, TYPE_COLOR),
      (''fraction'', kFraction, TYPE_FLOAT OR TYPE_FRACTION OR TYPE_DIMENSION),
      (''integer'', kInteger, TYPE_INTEGER),
      (''string'', kString, TYPE_STRING)]"

definition elToBagMap :: "string list" where
  "elToBagMap =
     [''add-resource'', ''array'', ''attr'', ''declare-styleable'', ''integer-array'',
      ''java-symbol'', ''plurals'', ''public'', ''public-group'', ''string-array'',
      ''style'', ''symbol'']"

text \<open>
  \<open>parseResource\<close> up to the parser it hands the element to: an error it reports
  itself, the id placeholder, \<open>parseItem\<close> with the type, the entry and the accepted
  format, a bag parser (with the entry, which \<open>public-group\<close> does not have), or
  \<open>parseXml\<close> for a reference of another resource type.
\<close>

datatype ParseResourceError =
  ItemWithoutType | InvalidFormat string | MissingName string | UnknownResourceType string

datatype ParseResourceStep =
  Failed ParseResourceError
  | IdValue string
  | CallParseItem ResourceType string "32 word"
  | CallBagParser string "string option"
  | CallParseXmlReference ResourceType string

definition parseResource ::
  "(string \<Rightarrow> ResourceType option) \<Rightarrow> string \<Rightarrow> (string \<rightharpoonup> string) \<Rightarrow> ParseResourceStep" where
  "parseResource prt elementName attrs =
     (case (if elementName = ''item'' then findNonEmptyAttribute attrs ''type''
            else Some elementName) of
        None \<Rightarrow> Failed ItemWithoutType
      | Some resourceType \<Rightarrow>
     (case (if elementName = ''item'' then
              (case findNonEmptyAttribute attrs ''format'' of
                 None \<Rightarrow> Inr 0
               | Some maybeFormat \<Rightarrow>
                   if parseFormatType maybeFormat = 0 then Inl (InvalidFormat maybeFormat)
                   else Inr (parseFormatType maybeFormat))
            else Inr 0) of
        Inl e \<Rightarrow> Failed e
      | Inr resourceFormat \<Rightarrow>
     (let maybeName = findNonEmptyAttribute attrs ''name'' in
      if resourceType = ''id'' then
        (case maybeName of
           None \<Rightarrow> Failed (MissingName elementName)
         | Some n \<Rightarrow> IdValue n)
      else
     (case map_of elToItemMap resourceType of
        Some (itemType, itemFormat) \<Rightarrow>
          (case maybeName of
             None \<Rightarrow> Failed (MissingName elementName)
           | Some n \<Rightarrow>
               CallParseItem itemType n
                 (if resourceFormat = 0 then itemFormat else resourceFormat))
      | None \<Rightarrow>
          if resourceType \<in> set elToBagMap then
            (if resourceType \<noteq> ''public-group'' then
               (case maybeName of
                  None \<Rightarrow> Failed (MissingName elementName)
                | Some n \<Rightarrow> CallBagParser resourceType (Some n))
             else CallBagParser resourceType None)
          else
            (case prt resourceType of
               Some parsedType \<Rightarrow>
                 (case maybeName of
                    None \<Rightarrow> Failed (MissingName elementName)
                  | Some n \<Rightarrow> CallParseXmlReference parsedType n)
             | None \<Rightarrow> Failed (UnknownResourceType elementName))))))"

text \<open>
  \<open>parseXml\<close>, given what \<open>flattenXmlSubtree\<close> made of the subtree (nothing when it
  failed): the raw text, the text of the style string and its spans. The namespace
  fix-up of a parsed reference does not change which texts are accepted.
\<close>

definition parseXml ::
  "(string \<Rightarrow> ResourceType option) \<Rightarrow> (string \<rightharpoonup> Res_value) \<Rightarrow> (string \<rightharpoonup> Res_value)
    \<Rightarrow> (string \<times> string \<times> (string \<times> nat \<times> nat) list) option \<Rightarrow> 32 word \<Rightarrow> bool
    \<Rightarrow> Item option" where
  "parseXml prt stringToInt stringToFloat flattened acceptedMask allowRawValue =
     (case flattened of
        None \<Rightarrow> None
      | Some (rawValue, styleStr, spans) \<Rightarrow>
          if spans \<noteq> [] then Some (StyledString styleStr spans)
          else
            (case fst (tryParseItemForAttribute prt stringToInt stringToFloat rawValue
                         acceptedMask) of
               Some processedItem \<Rightarrow> Some processedItem
             | None \<Rightarrow>
                 if acceptedMask AND TYPE_STRING \<noteq> 0 then Some (StringItem styleStr)
                 else if allowRawValue then Some (RawString rawValue)
                 else None))"

section \<open>XmlActionExecutor\<close>

text \<open>
  Modelled from the spec: the enum \<open>XmlActionExecutorPolicy\<close> (xml/XmlActionExecutor.h) is
  not part of the sources. The sources name \<open>kWhitelist\<close>, the spec's "strict/whitelist policy";
  \<open>kNone\<close> stands for the policy that is not strict.
\<close>

datatype XmlActionExecutorPolicy = kNone | kWhitelist

datatype Element =
  Element (namespace_uri: string) (elementName: string) (line_number: nat)
    (childElements: "Element list")

text \<open>
  A diagnostic: the line of the message, if it has one, and its text. An action is a
  function of the element that gives its result and the diagnostics it reports; what
  an action may change in the element is outside this model.
\<close>

datatype DiagMessage = DiagMessage "nat option" string

type_synonym ActionFuncWithDiag = "Element \<Rightarrow> bool \<times> DiagMessage list"

datatype XmlNodeAction =
  XmlNodeAction (actions: "ActionFuncWithDiag list")
    (nodeMap: "(string \<times> XmlNodeAction) list")

definition PrintElementToDiagMessage :: "Element \<Rightarrow> string" where
  "PrintElementToDiagMessage el =
     ''<'' @ (if namespace_uri el \<noteq> [] then namespace_uri el @ '':'' else [])
       @ elementName el @ ''>''"

definition unknownElement :: "Element \<Rightarrow> DiagMessage" where
  "unknownElement el =
     DiagMessage (Some (line_number el))
       (''unknown element '' @ PrintElementToDiagMessage el @ '' found'')"

text \<open>The first loop of \<open>XmlNodeAction::Execute\<close>: \<open>error |= !action(el, diag)\<close>.\<close>

fun runActions ::
  "ActionFuncWithDiag list \<Rightarrow> Element \<Rightarrow> bool \<times> DiagMessage list
    \<Rightarrow> bool \<times> DiagMessage list" where
  "runActions [] el (error, diag) = (error, diag)"
| "runActions (action # rest) el (error, diag) =
     (case action el of
        (ok, reported) \<Rightarrow> runActions rest el (error \<or> \<not> ok, diag @ reported))"

text \<open>
  \<open>XmlNodeAction::Execute\<close>: the result, and the diagnostics reported. The second
  function is the loop over the child elements, with \<open>error\<close> and the diagnostics so far.
\<close>

fun XmlNodeAction_Execute ::
  "XmlActionExecutorPolicy \<Rightarrow> XmlNodeAction \<Rightarrow> Element \<Rightarrow> bool \<times> DiagMessage list"
and executeChildren ::
  "XmlActionExecutorPolicy \<Rightarrow> (string \<times> XmlNodeAction) list \<Rightarrow> Element list
    \<Rightarrow> bool \<times> DiagMessage list \<Rightarrow> bool \<times> DiagMessage list" where
  "XmlNodeAction_Execute policy node (Element ns nm ln children) =
     (case executeChildren policy (nodeMap node) children
             (runActions (actions node) (Element ns nm ln children) (False, [])) of
        (error, diag) \<Rightarrow> (\<not> error, diag))"
| "executeChildren policy m [] (error, diag) = (error, diag)"
| "executeChildren policy m (child_el # rest) (error, diag) =
     (case (if namespace_uri child_el = [] then map_of m (elementName child_el) else None) of
        Some childAction \<Rightarrow>
          (case XmlNodeAction_Execute policy childAction child_el of
             (ok, reported) \<Rightarrow>
               executeChildren policy m rest (error \<or> \<not> ok, diag @ reported))
      | None \<Rightarrow>
          if policy = kWhitelist then
            executeChildren policy m rest (True, diag @ [unknownElement child_el])
          else executeChildren policy m rest (error, diag))"

text \<open>
  \<open>XmlActionExecutor::Execute\<close>; \<open>rootMap\<close> is the executor's \<open>map_\<close>. \<open>FindRootElement\<close>
  (xml/XmlDom.cpp) is not part of the sources: it is the parameter that gives the root element
  of the document, if it has one.
\<close>

definition XmlActionExecutor_Execute ::
  "('doc \<Rightarrow> Element option) \<Rightarrow> XmlActionExecutorPolicy \<Rightarrow> (string \<times> XmlNodeAction) list
    \<Rightarrow> 'doc \<Rightarrow> bool \<times> DiagMessage list" where
  "XmlActionExecutor_Execute FindRootElement policy rootMap doc =
     (case FindRootElement doc of
        None \<Rightarrow>
          if policy = kWhitelist then (False, [DiagMessage None ''no root XML tag found''])
          else (True, [])
      | Some el \<Rightarrow>
          (case (if namespace_uri el = [] then map_of rootMap (elementName el) else None) of
             Some rootAction \<Rightarrow> XmlNodeAction_Execute policy rootAction el
           | None \<Rightarrow>
               if policy = kWhitelist then (False, [unknownElement el])
               else (True, [])))"

section \<open>The resource table\<close>

text \<open>
  The structures of ResourceTable.h. A vector of owned structures is a list; the lists
  of packages and of entries are kept sorted by name, so strings are compared in
  dictionary order. The string pool is left out, and so are the sources and comments of
  the values: no property below reads them. The type of the values is the parameter
  \<open>'v\<close>.
\<close>

datatype SymbolState = kUndefined | kPublic | kPrivate

record Symbol =
  state :: SymbolState
  source :: string
  comment :: string

text \<open>
  Modelled from the spec: \<open>ConfigDescription\<close> (ConfigDescription.h) is not part of the sources. A
  configuration is its qualifier string here; the default configuration is the empty
  one.
\<close>

type_synonym ConfigDescription = string

record 'v ResourceConfigValue =
  config :: ConfigDescription
  configValue :: 'v

record 'v ResourceEntry =
  entryName :: string
  entryId :: "16 word option"
  symbolStatus :: Symbol
  configValues :: "'v ResourceConfigValue list"

record 'v ResourceTableType =
  resourceType :: ResourceType
  typeId :: "8 word option"
  typeSymbolStatus :: Symbol
  entries :: "'v ResourceEntry list"

datatype PackageType = System | Vendor | App | Dynamic

record 'v ResourceTablePackage =
  packageType :: PackageType
  packageId :: "8 word option"
  packageName :: string
  types :: "'v ResourceTableType list"

record 'v ResourceTable =
  packages :: "'v ResourceTablePackage list"

text \<open>
  Modelled from the spec: ResourceTable.cpp is not part of the sources, only its header is. The
  lookups are the spec's "exact-key lookups"; \<open>findResource\<close> gives the entry of the
  search result. Packages, types and entries are made on first reference
  ("find-or-create"): a new one has no id, the symbol state \<open>kUndefined\<close> and nothing
  inside, as the header initialises them.
\<close>

definition findPackage :: "'v ResourceTable \<Rightarrow> string \<Rightarrow> 'v ResourceTablePackage option" where
  "findPackage table n = find (\<lambda>p. packageName p = n) (packages table)"

definition findType ::
  "'v ResourceTablePackage \<Rightarrow> ResourceType \<Rightarrow> 'v ResourceTableType option" where
  "findType pkg ty = find (\<lambda>t. resourceType t = ty) (types pkg)"

definition findEntry :: "'v ResourceTableType \<Rightarrow> string \<Rightarrow> 'v ResourceEntry option" where
  "findEntry t n = find (\<lambda>e. entryName e = n) (entries t)"

definition findResource :: "'v ResourceTable \<Rightarrow> ResourceName \<Rightarrow> 'v ResourceEntry option" where
  "findResource table nm =
     (case findPackage table (package nm) of
        None \<Rightarrow> None
      | Some p \<Rightarrow>
          (case findType p (type nm) of
             None \<Rightarrow> None
           | Some t \<Rightarrow> findEntry t (entry nm)))"

definition undefinedSymbol :: Symbol where
  "undefinedSymbol = \<lparr>state = kUndefined, source = [], comment = []\<rparr>"

definition newEntry :: "string \<Rightarrow> 'v ResourceEntry" where
  "newEntry n =
     \<lparr>entryName = n, entryId = None, symbolStatus = undefinedSymbol, configValues = []\<rparr>"

definition newType :: "ResourceType \<Rightarrow> 'v ResourceTableType" where
  "newType ty =
     \<lparr>resourceType = ty, typeId = None, typeSymbolStatus = undefinedSymbol, entries = []\<rparr>"

definition newPackage :: "string \<Rightarrow> 'v ResourceTablePackage" where
  "newPackage n = \<lparr>packageType = App, packageId = None, packageName = n, types = []\<rparr>"

definition findOrCreatePackage :: "'v ResourceTable \<Rightarrow> string \<Rightarrow> 'v ResourceTablePackage" where
  "findOrCreatePackage table n =
     (case findPackage table n of Some p \<Rightarrow> p | None \<Rightarrow> newPackage n)"

definition findOrCreateType ::
  "'v ResourceTablePackage \<Rightarrow> ResourceType \<Rightarrow> 'v ResourceTableType" where
  "findOrCreateType pkg ty = (case findType pkg ty of Some t \<Rightarrow> t | None \<Rightarrow> newType ty)"

definition findOrCreateEntry :: "'v ResourceTableType \<Rightarrow> string \<Rightarrow> 'v ResourceEntry" where
  "findOrCreateEntry t n = (case findEntry t n of Some e \<Rightarrow> e | None \<Rightarrow> newEntry n)"

text \<open>
  The code changes a structure in place through the pointer that find-or-create gives;
  here the changed structure is written back where it is, or put in at its place when
  it is new.
\<close>

definition storeEntry :: "'v ResourceTableType \<Rightarrow> 'v ResourceEntry \<Rightarrow> 'v ResourceTableType" where
  "storeEntry t e =
     t\<lparr>entries :=
         (if findEntry t (entryName e) = None then insort_key entryName e (entries t)
          else map (\<lambda>x. if entryName x = entryName e then e else x) (entries t))\<rparr>"

definition storeType ::
  "'v ResourceTablePackage \<Rightarrow> 'v ResourceTableType \<Rightarrow> 'v ResourceTablePackage" where
  "storeType pkg t =
     pkg\<lparr>types :=
           (if findType pkg (resourceType t) = None then types pkg @ [t]
            else map (\<lambda>x. if resourceType x = resourceType t then t else x) (types pkg))\<rparr>"

definition storePackage :: "'v ResourceTable \<Rightarrow> 'v ResourceTablePackage \<Rightarrow> 'v ResourceTable" where
  "storePackage table p =
     table\<lparr>packages :=
             (if findPackage table (packageName p) = None
              then insort_key packageName p (packages table)
              else map (\<lambda>x. if packageName x = packageName p then p else x)
                     (packages table))\<rparr>"

text \<open>
  Find or create the entry of a name, and change it by \<open>f\<close> (which keeps the entry's
  name).
\<close>

definition updateEntry ::
  "'v ResourceTable \<Rightarrow> ResourceName \<Rightarrow> ('v ResourceEntry \<Rightarrow> 'v ResourceEntry)
    \<Rightarrow> 'v ResourceTable" where
  "updateEntry table nm f =
     (let p = findOrCreatePackage table (package nm);
          t = findOrCreateType p (type nm);
          e = findOrCreateEntry t (entry nm)
      in storePackage table (storeType p (storeEntry t (f e))))"

text \<open>
  Modelled from the spec: \<open>ResourceTable::setSymbolState\<close> (ResourceTable.cpp) is not
  part of the sources. The spec: "creates the entry if absent; fails if the requested state would
  downgrade a Public symbol", with the states ordered Undefined, Private, Public. A call
  that does not fail stores the requested state and its source. The id argument is left
  out: the spec does not say what the call does with it.
\<close>

definition stateRank :: "SymbolState \<Rightarrow> nat" where
  "stateRank st = (case st of kUndefined \<Rightarrow> 0 | kPrivate \<Rightarrow> 1 | kPublic \<Rightarrow> 2)"

definition setSymbolState ::
  "'v ResourceTable \<Rightarrow> ResourceName \<Rightarrow> string \<Rightarrow> SymbolState \<Rightarrow> bool \<times> 'v ResourceTable" where
  "setSymbolState table nm src st =
     (case findResource table nm of
        Some e \<Rightarrow>
          if state (symbolStatus e) = kPublic \<and> stateRank st < stateRank kPublic
          then (False, table)
          else (True, updateEntry table nm
                        (\<lambda>x. x\<lparr>symbolStatus := \<lparr>state = st, source = src, comment = []\<rparr>\<rparr>))
      | None \<Rightarrow>
          (True, updateEntry table nm
                   (\<lambda>x. x\<lparr>symbolStatus := \<lparr>state = st, source = src, comment = []\<rparr>\<rparr>)))"

text \<open>A run of \<open>setSymbolState\<close> calls, whatever each of them returns.\<close>

fun setSymbolStateCalls ::
  "'v ResourceTable \<Rightarrow> (ResourceName \<times> string \<times> SymbolState) list \<Rightarrow> 'v ResourceTable" where
  "setSymbolStateCalls table [] = table"
| "setSymbolStateCalls table ((nm, src, st) # calls) =
     setSymbolStateCalls (snd (setSymbolState table nm src st)) calls"

section \<open>The table merger\<close>

text \<open>
  Modelled from the spec: \<open>NameMangler::mangleEntry\<close> (NameMangler.h) is not part of the sources.
  The spec: "Mangled name format: \<open><originalPackage>$<entryOrFileBaseName>\<close> (exact
  separator \<open>$\<close>)".
\<close>

definition mangleEntry :: "string \<Rightarrow> string \<Rightarrow> string" where
  "mangleEntry pkg ent = pkg @ ''$'' @ ent"

text \<open>
  \<open>ResourceUtils::buildResourceFileName\<close>. The printed form of the resource type, the
  mangler's \<open>shouldMangle\<close> (nothing when there is no mangler) and \<open>file::getExtension\<close>
  of the source path are not part of the sources and are parameters; the configuration is
  printed as its qualifier string.
\<close>

definition buildResourceFileName ::
  "(ResourceType \<Rightarrow> string) \<Rightarrow> (string \<Rightarrow> bool) option \<Rightarrow> string
    \<Rightarrow> ResourceName \<Rightarrow> ConfigDescription \<Rightarrow> string" where
  "buildResourceFileName typeText shouldMangle extension resName resConfig =
     ''res/'' @ typeText (type resName)
       @ (if resConfig \<noteq> [] then ''-'' @ resConfig else [])
       @ ''/''
       @ (case shouldMangle of
            Some mangles \<Rightarrow>
              if mangles (package resName)
              then mangleEntry (package resName) (entry resName)
              else entry resName
          | None \<Rightarrow> entry resName)
       @ extension"

text \<open>
  Modelled from the spec: link/TableMerger.cpp is not part of the sources, only its test
  is. The merger holds the destination table and the set of merged packages; the
  compilation package, \<open>compPkg\<close>, comes from the context. The three operations go through the source
  table's packages, types and entries in order:
  \<^item> \<open>merge\<close> copies the resources of the packages whose name is the compilation
    package's or empty, under the compilation package; a value for a configuration that
    the entry already has goes by the table's collision rule
    (\<open>resolveValueCollision\<close> of the header: negative keeps the existing value, 0 is an
    error, positive takes the incoming one);
  \<^item> \<open>mergeAndMangle\<close> takes the packages of the given name, renames each entry with
    \<open>mangleEntry\<close>, and records the package as merged;
  \<^item> \<open>mergeOverlay\<close> is like \<open>merge\<close>, but an incoming value replaces the existing one
    for its configuration, and a name that the destination does not have is inserted
    only with \<open>autoAddOverlay\<close>: without it that insertion is not made and is an error,
    a "hard error for that single insertion only".
  An error makes the operation return failure; the resources without an error are
  merged all the same. The merger modelled is one without a configuration filter.
\<close>

record TableMergerOptions =
  autoAddOverlay :: bool

record 'v TableMerger =
  masterTable :: "'v ResourceTable"
  mergedPackages :: "string set"

text \<open>
  One incoming value into the values of an entry: the error flag so far and the
  values.
\<close>

fun mergeConfigValues ::
  "('v \<Rightarrow> 'v \<Rightarrow> int) \<Rightarrow> bool \<Rightarrow> 'v ResourceConfigValue list
    \<Rightarrow> bool \<times> 'v ResourceConfigValue list \<Rightarrow> bool \<times> 'v ResourceConfigValue list" where
  "mergeConfigValues resolveValueCollision overlay [] (error, dst) = (error, dst)"
| "mergeConfigValues resolveValueCollision overlay (sv # svs) (error, dst) =
     (case find (\<lambda>d. config d = config sv) dst of
        None \<Rightarrow> mergeConfigValues resolveValueCollision overlay svs (error, dst @ [sv])
      | Some dv \<Rightarrow>
          if overlay
             \<or> 0 < resolveValueCollision (configValue dv) (configValue sv) then
            mergeConfigValues resolveValueCollision overlay svs
              (error, map (\<lambda>d. if config d = config sv then sv else d) dst)
          else if resolveValueCollision (configValue dv) (configValue sv) = 0 then
            mergeConfigValues resolveValueCollision overlay svs (True, dst)
          else mergeConfigValues resolveValueCollision overlay svs (error, dst))"

text \<open>One entry of the source, to be merged under the name \<open>target\<close>.\<close>

definition mergeEntry ::
  "('v \<Rightarrow> 'v \<Rightarrow> int) \<Rightarrow> bool \<Rightarrow> bool \<Rightarrow> ResourceName \<Rightarrow> 'v ResourceEntry
    \<Rightarrow> bool \<times> 'v ResourceTable \<Rightarrow> bool \<times> 'v ResourceTable" where
  "mergeEntry resolveValueCollision overlay allowNewResources target srcEntry acc =
     (case acc of (error, table) \<Rightarrow>
        if \<not> allowNewResources \<and> findResource table target = None then (True, table)
        else
          (let dstEntry = (case findResource table target of
                             Some e \<Rightarrow> e
                           | None \<Rightarrow> newEntry (entry target)) in
           case mergeConfigValues resolveValueCollision overlay (configValues srcEntry)
                  (error, configValues dstEntry) of
             (error', merged) \<Rightarrow>
               (error', updateEntry table target (\<lambda>e. e\<lparr>configValues := merged\<rparr>))))"

definition targetName :: "string \<Rightarrow> bool \<Rightarrow> string \<Rightarrow> ResourceType \<Rightarrow> string \<Rightarrow> ResourceName" where
  "targetName compPkg manglePackage srcPackageName ty ent =
     \<lparr>package = compPkg, type = ty,
      entry = (if manglePackage then mangleEntry srcPackageName ent else ent)\<rparr>"

definition mergeType ::
  "('v \<Rightarrow> 'v \<Rightarrow> int) \<Rightarrow> string \<Rightarrow> bool \<Rightarrow> bool \<Rightarrow> bool \<Rightarrow> string \<Rightarrow> 'v ResourceTableType
    \<Rightarrow> bool \<times> 'v ResourceTable \<Rightarrow> bool \<times> 'v ResourceTable" where
  "mergeType resolveValueCollision compPkg manglePackage overlay allowNewResources
       srcPackageName srcType acc =
     fold (\<lambda>srcEntry.
             mergeEntry resolveValueCollision overlay allowNewResources
               (targetName compPkg manglePackage srcPackageName (resourceType srcType)
                  (entryName srcEntry))
               srcEntry)
          (entries srcType) acc"

definition doMerge ::
  "('v \<Rightarrow> 'v \<Rightarrow> int) \<Rightarrow> string \<Rightarrow> bool \<Rightarrow> bool \<Rightarrow> bool \<Rightarrow> 'v ResourceTablePackage
    \<Rightarrow> bool \<times> 'v ResourceTable \<Rightarrow> bool \<times> 'v ResourceTable" where
  "doMerge resolveValueCollision compPkg manglePackage overlay allowNewResources srcPackage acc =
     fold (mergeType resolveValueCollision compPkg manglePackage overlay allowNewResources
             (packageName srcPackage))
          (types srcPackage) acc"

definition mergePackages ::
  "('v \<Rightarrow> 'v \<Rightarrow> int) \<Rightarrow> string \<Rightarrow> bool \<Rightarrow> bool \<Rightarrow> bool \<Rightarrow> 'v ResourceTablePackage list
    \<Rightarrow> 'v ResourceTable \<Rightarrow> bool \<times> 'v ResourceTable" where
  "mergePackages resolveValueCollision compPkg manglePackage overlay allowNewResources
       srcPackages table =
     fold (doMerge resolveValueCollision compPkg manglePackage overlay allowNewResources)
          srcPackages (False, table)"

definition merge ::
  "('v \<Rightarrow> 'v \<Rightarrow> int) \<Rightarrow> string \<Rightarrow> 'v TableMerger \<Rightarrow> 'v ResourceTable
    \<Rightarrow> bool \<times> 'v TableMerger" where
  "merge resolveValueCollision compPkg merger srcTable =
     (case mergePackages resolveValueCollision compPkg False False True
             (filter (\<lambda>p. packageName p = [] \<or> packageName p = compPkg) (packages srcTable))
             (masterTable merger) of
        (error, table) \<Rightarrow> (\<not> error, merger\<lparr>masterTable := table\<rparr>))"

definition mergeAndMangle ::
  "('v \<Rightarrow> 'v \<Rightarrow> int) \<Rightarrow> string \<Rightarrow> 'v TableMerger \<Rightarrow> string \<Rightarrow> 'v ResourceTable
    \<Rightarrow> bool \<times> 'v TableMerger" where
  "mergeAndMangle resolveValueCollision compPkg merger pkg srcTable =
     (case mergePackages resolveValueCollision compPkg True False True
             (filter (\<lambda>p. packageName p = pkg) (packages srcTable))
             (masterTable merger) of
        (error, table) \<Rightarrow>
          (\<not> error,
           merger\<lparr>masterTable := table, mergedPackages := insert pkg (mergedPackages merger)\<rparr>))"

definition mergeOverlay ::
  "('v \<Rightarrow> 'v \<Rightarrow> int) \<Rightarrow> string \<Rightarrow> TableMergerOptions \<Rightarrow> 'v TableMerger \<Rightarrow> 'v ResourceTable
    \<Rightarrow> bool \<times> 'v TableMerger" where
  "mergeOverlay resolveValueCollision compPkg options merger srcTable =
     (case mergePackages resolveValueCollision compPkg False True (autoAddOverlay options)
             (filter (\<lambda>p. packageName p = [] \<or> packageName p = compPkg) (packages srcTable))
             (masterTable merger) of
        (error, table) \<Rightarrow> (\<not> error, merger\<lparr>masterTable := table\<rparr>))"

definition newTableMerger :: "'v TableMerger" where
  "newTableMerger = \<lparr>masterTable = \<lparr>packages = []\<rparr>, mergedPackages = {}\<rparr>"

section \<open>The notions the properties are stated with\<close>

text \<open>
  These follow the words of the specification, not the code: a hex digit and its value,
  the replication of the digits of the short color forms (with alpha \<open>ff\<close> when the form
  has none), and the 32-bit word that eight hex digits denote.
\<close>

definition isHexDigit :: "char \<Rightarrow> bool" where
  "isHexDigit c = (c \<in> set ''0123456789abcdefABCDEF'')"

definition hexDigitValue :: "char \<Rightarrow> nat" where
  "hexDigitValue c =
     (case map_of [(CHR ''0'', 0), (CHR ''1'', 1), (CHR ''2'', 2), (CHR ''3'', 3),
                   (CHR ''4'', 4), (CHR ''5'', 5), (CHR ''6'', 6), (CHR ''7'', 7),
                   (CHR ''8'', 8), (CHR ''9'', 9),
                   (CHR ''a'', 10), (CHR ''b'', 11), (CHR ''c'', 12), (CHR ''d'', 13),
                   (CHR ''e'', 14), (CHR ''f'', 15),
                   (CHR ''A'', 10), (CHR ''B'', 11), (CHR ''C'', 12), (CHR ''D'', 13),
                   (CHR ''E'', 14), (CHR ''F'', 15)] c of
        Some v \<Rightarrow> v
      | None \<Rightarrow> 0)"

definition replicateColorDigits :: "string \<Rightarrow> string option" where
  "replicateColorDigits ds =
     (case ds of
        [r, g, b] \<Rightarrow> Some (''ff'' @ [r, r, g, g, b, b])
      | [a, r, g, b] \<Rightarrow> Some [a, a, r, r, g, g, b, b]
      | [r1, r2, g1, g2, b1, b2] \<Rightarrow> Some (''ff'' @ [r1, r2, g1, g2, b1, b2])
      | [a1, a2, r1, r2, g1, g2, b1, b2] \<Rightarrow> Some [a1, a2, r1, r2, g1, g2, b1, b2]
      | _ \<Rightarrow> None)"

definition argbWord :: "string \<Rightarrow> 32 word" where
  "argbWord ds = of_nat (foldl (\<lambda>acc d. 16 * acc + hexDigitValue d) 0 ds)"

definition colorOfText :: "string \<Rightarrow> 32 word option" where
  "colorOfText s =
     (case s of
        [] \<Rightarrow> None
      | c # ds \<Rightarrow>
          if c = CHR ''#'' \<and> list_all isHexDigit ds
          then map_option argbWord (replicateColorDigits ds)
          else None)"

text \<open>
  For the flags: a token matches when its trimmed text is the entry of some symbol of the
  attribute; its value is that of the first such symbol; the value of a text is the
  bitwise OR over its tokens.
\<close>

definition tokenMatches :: "AttributeSymbol list \<Rightarrow> string \<Rightarrow> bool" where
  "tokenMatches syms tok = list_ex (\<lambda>s. entry (name (symbol s)) = trimWhitespace tok) syms"

definition tokenValue :: "AttributeSymbol list \<Rightarrow> string \<Rightarrow> 32 word" where
  "tokenValue syms tok =
     (case find (\<lambda>s. entry (name (symbol s)) = trimWhitespace tok) syms of
        Some s \<Rightarrow> symbolValue s
      | None \<Rightarrow> 0)"

definition orOfTokens :: "AttributeSymbol list \<Rightarrow> string list \<Rightarrow> 32 word" where
  "orOfTokens syms toks = foldr (\<lambda>tok acc. tokenValue syms tok OR acc) toks 0"

text \<open>
  Modelled from the spec: \<open>parseResourceType\<close> (Resource.cpp) is not part of the sources. The
  parsers above take it as a parameter; this is the table of the type names that the
  sources and the spec spell out, for running the parsers on concrete texts.
\<close>

definition parseResourceType :: "string \<Rightarrow> ResourceType option" where
  "parseResourceType str =
     map_of [(''array'', kArray), (''attr'', kAttr), (''bool'', kBool), (''color'', kColor),
             (''dimen'', kDimen), (''drawable'', kDrawable), (''fraction'', kFraction),
             (''id'', kId), (''integer'', kInteger), (''layout'', kLayout),
             (''plurals'', kPlurals), (''raw'', kRaw), (''string'', kString),
             (''style'', kStyle), (''styleable'', kStyleable), (''xml'', kXml)] str"

text \<open>The flag attribute of the spec's example: symbols \<open>A = 0x1\<close> and \<open>B = 0x2\<close>.\<close>

definition flagAB :: Attribute where
  "flagAB = \<lparr>typeMask = TYPE_FLAGS, symbols =
      [\<lparr>symbol = \<lparr>name = \<lparr>package = ''android'', type = kId, entry = ''A''\<rparr>,
                   referenceType = kResource, privateReference = False\<rparr>, symbolValue = 0x1\<rparr>,
       \<lparr>symbol = \<lparr>name = \<lparr>package = ''android'', type = kId, entry = ''B''\<rparr>,
                   referenceType = kResource, privateReference = False\<rparr>, symbolValue = 0x2\<rparr>]\<rparr>"

text \<open>
  Comparing "case-insensitively": two texts are the same after \<open>asciiLower\<close> on every
  character.
\<close>

definition asciiLower :: "char \<Rightarrow> char" where
  "asciiLower c =
     (case map_of (zip ''ABCDEFGHIJKLMNOPQRSTUVWXYZ'' ''abcdefghijklmnopqrstuvwxyz'') c of
        Some l \<Rightarrow> l
      | None \<Rightarrow> c)"

text \<open>
  For the table: a name is public when the table has its entry and the entry's symbol
  state is \<open>kPublic\<close>; and the examples' names and table.
\<close>

definition isPublic :: "'v ResourceTable \<Rightarrow> ResourceName \<Rightarrow> bool" where
  "isPublic tbl nm =
     (map_option (\<lambda>e. state (symbolStatus e)) (findResource tbl nm) = Some kPublic)"

definition fooName :: ResourceName where
  "fooName = \<lparr>package = [], type = kBool, entry = ''foo''\<rparr>"

definition barName :: ResourceName where
  "barName = \<lparr>package = [], type = kBool, entry = ''bar''\<rparr>"

definition emptyTable :: "Item ResourceTable" where
  "emptyTable = \<lparr>packages = []\<rparr>"

text \<open>
  For the merger: a table with only the package of a name; and the table of the test's
  example, with the one resource \<open>bool/foo\<close> of value true in a package of a given name,
  and a collision rule that keeps a value identical to the incoming one and refuses
  any other.
\<close>

definition onlyPackage :: "string \<Rightarrow> 'v ResourceTable \<Rightarrow> bool" where
  "onlyPackage c tbl = list_all (\<lambda>p. packageName p = c) (packages tbl)"

definition keepIdentical :: "Item \<Rightarrow> Item \<Rightarrow> int" where
  "keepIdentical existing incoming = (if existing = incoming then - 1 else 0)"

definition trueValue :: Item where
  "trueValue = BinaryPrimitive \<lparr>dataType = Res_value_TYPE_INT_BOOLEAN, data = 0xffffffff\<rparr>"

definition fooEntry :: "Item ResourceEntry" where
  "fooEntry = \<lparr>entryName = ''foo'', entryId = None, symbolStatus = undefinedSymbol,
               configValues = [\<lparr>config = [], configValue = trueValue\<rparr>]\<rparr>"

definition boolType :: "Item ResourceTableType" where
  "boolType = \<lparr>resourceType = kBool, typeId = None, typeSymbolStatus = undefinedSymbol,
               entries = [fooEntry]\<rparr>"

definition packageOf :: "string \<Rightarrow> Item ResourceTablePackage" where
  "packageOf n = \<lparr>packageType = App, packageId = Some 0x7f, packageName = n,
                  types = [boolType]\<rparr>"

definition tableOf :: "string \<Rightarrow> Item ResourceTable" where
  "tableOf n = \<lparr>packages = [packageOf n]\<rparr>"

text \<open>The overlay of the test that overrides \<open>bool/foo\<close> with false.\<close>

definition falseValue :: Item where
  "falseValue = BinaryPrimitive \<lparr>dataType = Res_value_TYPE_INT_BOOLEAN, data = 0\<rparr>"

definition overlayFalse :: "Item ResourceTable" where
  "overlayFalse =
     \<lparr>packages = [(packageOf [])
        \<lparr>types := [boolType\<lparr>entries :=
           [fooEntry\<lparr>configValues := [\<lparr>config = [], configValue = falseValue\<rparr>]\<rparr>]\<rparr>]\<rparr>]\<rparr>"






section \<open>Hex digits and color words\<close>

lemma isHexDigit_range:
  "isHexDigit c \<longleftrightarrow>
     (48 \<le> (of_char c :: nat) \<and> (of_char c :: nat) \<le> 57)
     \<or> (97 \<le> (of_char c :: nat) \<and> (of_char c :: nat) \<le> 102)
     \<or> (65 \<le> (of_char c :: nat) \<and> (of_char c :: nat) \<le> 70)"
  (is "?L \<longleftrightarrow> ?R")
proof
  assume ?L
  then show ?R unfolding isHexDigit_def by auto
next
  assume r: ?R
  define n where "n = (of_char c :: nat)"
  have c: "c = char_of n" by (simp add: n_def)
  have "n = 48 \<or> n = 49 \<or> n = 50 \<or> n = 51 \<or> n = 52 \<or> n = 53 \<or> n = 54 \<or> n = 55
      \<or> n = 56 \<or> n = 57
      \<or> n = 97 \<or> n = 98 \<or> n = 99 \<or> n = 100 \<or> n = 101 \<or> n = 102
      \<or> n = 65 \<or> n = 66 \<or> n = 67 \<or> n = 68 \<or> n = 69 \<or> n = 70"
    using r unfolding n_def [symmetric] by presburger
  then show ?L unfolding c isHexDigit_def
    by (elim disjE) (simp_all add: char_of_def bit_0)
qed

lemma parseHex_digit:
  "isHexDigit c \<Longrightarrow> parseHex c = (of_nat (hexDigitValue c), False)"
  unfolding isHexDigit_def
  by (auto simp: parseHex_def hexDigitValue_def)

lemma parseHex_other:
  "\<not> isHexDigit c \<Longrightarrow> parseHex c = (0xffffffff, True)"
  unfolding isHexDigit_range
  by (auto simp: parseHex_def Let_def)

lemma hexDigitValue_less: "hexDigitValue c < 16"
  by (simp add: hexDigitValue_def)

lemma nibble_or:
  assumes "d < 16"
  shows "push_bit 4 x OR (of_nat d :: 32 word) = 16 * x + of_nat d"
proof -
  have t: "(of_nat d :: 32 word) = take_bit 4 (of_nat d)"
    using assms by (simp add: take_bit_of_nat take_bit_nat_eq_self)
  have "push_bit 4 x AND (of_nat d :: 32 word) = 0"
    by (subst t) (auto simp: bit_eq_iff bit_simps)
  then have "push_bit 4 x + (of_nat d :: 32 word) = push_bit 4 x OR of_nat d"
    by (rule disjunctive_add_eq_or)
  then show ?thesis by (simp add: push_bit_eq_mult mult.commute)
qed

lemma horner_or:
  "foldl (\<lambda>acc d. push_bit 4 acc OR of_nat (hexDigitValue d)) (of_nat a :: 32 word) ds
   = of_nat (foldl (\<lambda>acc d. 16 * acc + hexDigitValue d) a ds)"
proof (induction ds arbitrary: a)
  case Nil
  show ?case by simp
next
  case (Cons d ds)
  have "push_bit 4 (of_nat a :: 32 word) OR of_nat (hexDigitValue d)
        = of_nat (16 * a + hexDigitValue d)"
    using nibble_or [OF hexDigitValue_less, of "of_nat a" d] by simp
  then show ?case using Cons.IH [of "16 * a + hexDigitValue d"] by simp
qed

lemma argbWord_or:
  "argbWord ds = foldl (\<lambda>acc d. push_bit 4 acc OR of_nat (hexDigitValue d)) 0 ds"
  using horner_or [of 0 ds] by (simp add: argbWord_def)

lemma hexAt_digit: "isHexDigit (s ! i) \<Longrightarrow> hexAt s i = of_nat (hexDigitValue (s ! i))"
  by (simp add: hexAt_def parseHex_digit)

lemma hexErrorAt_iff: "hexErrorAt s i = (\<not> isHexDigit (s ! i))"
  by (cases "isHexDigit (s ! i)") (simp_all add: hexErrorAt_def parseHex_digit parseHex_other)

lemma replicateColorDigits_None:
  "length ds \<noteq> 3 \<Longrightarrow> length ds \<noteq> 4 \<Longrightarrow> length ds \<noteq> 6 \<Longrightarrow> length ds \<noteq> 8
    \<Longrightarrow> replicateColorDigits ds = None"
  by (auto simp: replicateColorDigits_def split: list.splits)

lemma hexDigitValue_f: "hexDigitValue CHR ''f'' = 15"
  by (simp add: hexDigitValue_def)

lemma alpha_ff: "(0xff000000 :: 32 word) = push_bit 28 15 OR push_bit 24 15"
  by simp

lemma argb8:
  "argbWord [a1, a2, r1, r2, g1, g2, b1, b2] =
     push_bit 28 (of_nat (hexDigitValue a1)) OR push_bit 24 (of_nat (hexDigitValue a2))
     OR push_bit 20 (of_nat (hexDigitValue r1)) OR push_bit 16 (of_nat (hexDigitValue r2))
     OR push_bit 12 (of_nat (hexDigitValue g1)) OR push_bit 8 (of_nat (hexDigitValue g2))
     OR push_bit 4 (of_nat (hexDigitValue b1)) OR of_nat (hexDigitValue b2)"
  by (simp add: argbWord_or or.assoc)

lemma len3: "length ds = 3 \<Longrightarrow> \<exists>r g b. ds = [r, g, b]"
  by (auto simp: length_Suc_conv eval_nat_numeral)
lemma len4: "length ds = 4 \<Longrightarrow> \<exists>a r g b. ds = [a, r, g, b]"
  by (auto simp: length_Suc_conv eval_nat_numeral)
lemma len6: "length ds = 6 \<Longrightarrow> \<exists>r1 r2 g1 g2 b1 b2. ds = [r1, r2, g1, g2, b1, b2]"
  by (auto simp: length_Suc_conv eval_nat_numeral)
lemma len8: "length ds = 8 \<Longrightarrow> \<exists>a1 a2 r1 r2 g1 g2 b1 b2. ds = [a1, a2, r1, r2, g1, g2, b1, b2]"
  by (auto simp: length_Suc_conv eval_nat_numeral)

lemma argb8_ff:
  "argbWord (''ff'' @ [r1, r2, g1, g2, b1, b2]) =
     0xff000000
     OR push_bit 20 (of_nat (hexDigitValue r1)) OR push_bit 16 (of_nat (hexDigitValue r2))
     OR push_bit 12 (of_nat (hexDigitValue g1)) OR push_bit 8 (of_nat (hexDigitValue g2))
     OR push_bit 4 (of_nat (hexDigitValue b1)) OR of_nat (hexDigitValue b2)"
proof -
  have "(0xff000000 :: 32 word) OR x = push_bit 28 15 OR (push_bit 24 15 OR x)" for x
    by (simp add: or.assoc [symmetric])
  then show ?thesis
    by (simp add: argb8 hexDigitValue_f or.assoc)
qed

lemma tryParseColor_rgb4:
  assumes t: "trimWhitespace str = [CHR ''#'', r, g, b]"
  shows "map_option data (tryParseColor str) = colorOfText [CHR ''#'', r, g, b]"
proof (cases "isHexDigit r \<and> isHexDigit g \<and> isHexDigit b")
  case True
  then have "tryParseColor str \<noteq> None"
    using t by (simp add: tryParseColor_def Let_def hexErrorAt_iff)
  then show ?thesis
    using t True
    by (simp add: tryParseColor_def colorOfText_def replicateColorDigits_def Let_def
        hexErrorAt_iff hexAt_digit argb8_ff [simplified] or.assoc)
next
  case False
  then have e: "\<not> isHexDigit r \<or> \<not> isHexDigit g \<or> \<not> isHexDigit b"
    by blast
  have "tryParseColor str = None"
    using t e by (simp add: tryParseColor_def Let_def hexErrorAt_iff)
  then show ?thesis
    using False by (simp add: colorOfText_def) blast
qed

lemma tryParseColor_argb4:
  assumes t: "trimWhitespace str = [CHR ''#'', a, r, g, b]"
  shows "map_option data (tryParseColor str) = colorOfText [CHR ''#'', a, r, g, b]"
proof (cases "isHexDigit a \<and> isHexDigit r \<and> isHexDigit g \<and> isHexDigit b")
  case True
  then have "tryParseColor str \<noteq> None"
    using t by (simp add: tryParseColor_def Let_def hexErrorAt_iff)
  then show ?thesis
    using t True
    by (simp add: tryParseColor_def colorOfText_def replicateColorDigits_def Let_def
        hexErrorAt_iff hexAt_digit argb8 or.assoc)
next
  case False
  then have e: "\<not> isHexDigit a \<or> \<not> isHexDigit r \<or> \<not> isHexDigit g \<or> \<not> isHexDigit b"
    by blast
  have "tryParseColor str = None"
    using t e by (simp add: tryParseColor_def Let_def hexErrorAt_iff)
  then show ?thesis
    using False by (simp add: colorOfText_def) blast
qed

lemma tryParseColor_rgb8:
  assumes t: "trimWhitespace str = [CHR ''#'', r1, r2, g1, g2, b1, b2]"
  shows "map_option data (tryParseColor str) = colorOfText [CHR ''#'', r1, r2, g1, g2, b1, b2]"
proof (cases "isHexDigit r1 \<and> isHexDigit r2 \<and> isHexDigit g1 \<and> isHexDigit g2 \<and> isHexDigit b1 \<and> isHexDigit b2")
  case True
  then have "tryParseColor str \<noteq> None"
    using t by (simp add: tryParseColor_def Let_def hexErrorAt_iff)
  then show ?thesis
    using t True
    by (simp add: tryParseColor_def colorOfText_def replicateColorDigits_def Let_def
        hexErrorAt_iff hexAt_digit argb8_ff [simplified] or.assoc)
next
  case False
  then have e: "\<not> isHexDigit r1 \<or> \<not> isHexDigit r2 \<or> \<not> isHexDigit g1 \<or> \<not> isHexDigit g2 \<or> \<not> isHexDigit b1 \<or> \<not> isHexDigit b2"
    by blast
  have "tryParseColor str = None"
    using t e by (simp add: tryParseColor_def Let_def hexErrorAt_iff)
  then show ?thesis
    using False by (simp add: colorOfText_def) blast
qed

lemma tryParseColor_argb8:
  assumes t: "trimWhitespace str = [CHR ''#'', a1, a2, r1, r2, g1, g2, b1, b2]"
  shows "map_option data (tryParseColor str) = colorOfText [CHR ''#'', a1, a2, r1, r2, g1, g2, b1, b2]"
proof (cases "isHexDigit a1 \<and> isHexDigit a2 \<and> isHexDigit r1 \<and> isHexDigit r2 \<and> isHexDigit g1 \<and> isHexDigit g2 \<and> isHexDigit b1 \<and> isHexDigit b2")
  case True
  then have "tryParseColor str \<noteq> None"
    using t by (simp add: tryParseColor_def Let_def hexErrorAt_iff)
  then show ?thesis
    using t True
    by (simp add: tryParseColor_def colorOfText_def replicateColorDigits_def Let_def
        hexErrorAt_iff hexAt_digit argb8 or.assoc)
next
  case False
  then have e: "\<not> isHexDigit a1 \<or> \<not> isHexDigit a2 \<or> \<not> isHexDigit r1 \<or> \<not> isHexDigit r2 \<or> \<not> isHexDigit g1 \<or> \<not> isHexDigit g2 \<or> \<not> isHexDigit b1 \<or> \<not> isHexDigit b2"
    by blast
  have "tryParseColor str = None"
    using t e by (simp add: tryParseColor_def Let_def hexErrorAt_iff)
  then show ?thesis
    using False by (simp add: colorOfText_def) blast
qed


lemma tryParseColor_other:
  assumes tt: "trimWhitespace str = t"
    and o: "t = [] \<or> hd t \<noteq> CHR ''#'' \<or> length t \<notin> {4, 5, 7, 9}"
  shows "map_option data (tryParseColor str) = colorOfText t"
proof (cases t)
  case Nil
  then show ?thesis using tt by (simp add: tryParseColor_def colorOfText_def)
next
  case (Cons c ds)
  show ?thesis
  proof (cases "c = CHR ''#''")
    case False
    then show ?thesis using tt Cons
      by (simp add: tryParseColor_def colorOfText_def Let_def)
  next
    case True
    then have l: "length ds \<noteq> 3" "length ds \<noteq> 4" "length ds \<noteq> 6" "length ds \<noteq> 8"
      using o Cons by auto
    then have "replicateColorDigits ds = None"
      by (rule replicateColorDigits_None)
    moreover have "tryParseColor str = None"
      using tt Cons True l by (simp add: tryParseColor_def Let_def)
    ultimately show ?thesis using Cons by (simp add: colorOfText_def)
  qed
qed

lemma tryParseColor_data:
  "map_option data (tryParseColor str) = colorOfText (trimWhitespace str)"
proof -
  define t where "t = trimWhitespace str"
  have tt: "trimWhitespace str = t" by (simp add: t_def)
  consider (other) "t = [] \<or> hd t \<noteq> CHR ''#'' \<or> length t \<notin> {4, 5, 7, 9}"
    | (l4) "t \<noteq> []" "hd t = CHR ''#''" "length t = 4"
    | (l5) "t \<noteq> []" "hd t = CHR ''#''" "length t = 5"
    | (l7) "t \<noteq> []" "hd t = CHR ''#''" "length t = 7"
    | (l9) "t \<noteq> []" "hd t = CHR ''#''" "length t = 9"
    by auto
  then have "map_option data (tryParseColor str) = colorOfText t"
  proof cases
    case other
    then show ?thesis using tryParseColor_other [OF tt] by simp
  next
    case l4
    then obtain r g b where "t = [CHR ''#'', r, g, b]"
      by (cases t) (auto dest: len3)
    then show ?thesis using tryParseColor_rgb4 tt by simp
  next
    case l5
    then obtain a r g b where "t = [CHR ''#'', a, r, g, b]"
      by (cases t) (auto dest: len4)
    then show ?thesis using tryParseColor_argb4 tt by simp
  next
    case l7
    then obtain r1 r2 g1 g2 b1 b2 where "t = [CHR ''#'', r1, r2, g1, g2, b1, b2]"
      by (cases t) (auto dest: len6)
    then show ?thesis using tryParseColor_rgb8 tt by simp
  next
    case l9
    then obtain a1 a2 r1 r2 g1 g2 b1 b2 where "t = [CHR ''#'', a1, a2, r1, r2, g1, g2, b1, b2]"
      by (cases t) (auto dest: len8)
    then show ?thesis using tryParseColor_argb8 tt by simp
  qed
  then show ?thesis by (simp add: t_def)
qed

lemma replicateColorDigits_Some_iff:
  "(replicateColorDigits ds \<noteq> None) = (length ds \<in> {3, 4, 6, 8})"
proof (cases "length ds \<in> {3, 4, 6, 8}")
  case False
  then show ?thesis using replicateColorDigits_None [of ds] by simp
next
  case True
  then consider "length ds = 3" | "length ds = 4" | "length ds = 6" | "length ds = 8"
    by auto
  then have "replicateColorDigits ds \<noteq> None"
  proof cases
    case 1 then show ?thesis using len3 [OF 1] by (auto simp: replicateColorDigits_def)
  next
    case 2 then show ?thesis using len4 [OF 2] by (auto simp: replicateColorDigits_def)
  next
    case 3 then show ?thesis using len6 [OF 3] by (auto simp: replicateColorDigits_def)
  next
    case 4 then show ?thesis using len8 [OF 4] by (auto simp: replicateColorDigits_def)
  qed
  then show ?thesis using True by simp
qed

lemma colorOfText_Some_iff:
  "(colorOfText t \<noteq> None) =
     (\<exists>ds. t = CHR ''#'' # ds \<and> length ds \<in> {3, 4, 6, 8} \<and> list_all isHexDigit ds)"
  using replicateColorDigits_Some_iff
  by (cases t) (auto simp: colorOfText_def)

lemma tryParseColor_Some_iff:
  "(tryParseColor str \<noteq> None) = (colorOfText (trimWhitespace str) \<noteq> None)"
  using tryParseColor_data [of str] by (cases "tryParseColor str") (auto dest: sym)

text \<open>
  Claim C4, as amended. \<open>tryParseColor\<close> looks at the text with the whitespace at both
  ends trimmed off; it returns a value exactly when the trimmed text is \<open>#\<close> and then 3,
  4, 6 or 8 hex digits; the data word is then the ARGB word of the digits, replicated
  for the short forms and with alpha \<open>ff\<close> for the forms without alpha: \<open>#abc\<close> is
  \<open>0xffaabbcc\<close>, \<open>#1abc\<close> is \<open>0x11aabbcc\<close>, \<open>#112233\<close> is \<open>0xff112233\<close> and \<open>#11223344\<close>
  is \<open>0x11223344\<close>. Any other length and any other digit give no value.
\<close>

theorem tryParseColor_trimmed_argb:
  "(tryParseColor str \<noteq> None \<longleftrightarrow>
      (\<exists>ds. trimWhitespace str = CHR ''#'' # ds \<and> length ds \<in> {3, 4, 6, 8}
            \<and> list_all isHexDigit ds))
   \<and> map_option data (tryParseColor str) = colorOfText (trimWhitespace str)
   \<and> colorOfText ''#abc'' = Some 0xffaabbcc
   \<and> colorOfText ''#1abc'' = Some 0x11aabbcc
   \<and> colorOfText ''#112233'' = Some 0xff112233
   \<and> colorOfText ''#11223344'' = Some 0x11223344"
proof -
  have ex: "colorOfText ''#abc'' = Some 0xffaabbcc" "colorOfText ''#1abc'' = Some 0x11aabbcc"
    "colorOfText ''#112233'' = Some 0xff112233" "colorOfText ''#11223344'' = Some 0x11223344"
    by (simp_all add: colorOfText_def replicateColorDigits_def argbWord_def isHexDigit_def
        hexDigitValue_def)
  show ?thesis
    using tryParseColor_Some_iff [of str] colorOfText_Some_iff [of "trimWhitespace str"]
      tryParseColor_data [of str] ex
    by simp
qed

text \<open>The theorem at concrete texts: the four forms, a wrong length and a wrong digit.\<close>

theorem tryParseColor_trimmed_argb_witness:
  "map_option data (tryParseColor '' #abc '') = Some 0xffaabbcc
   \<and> map_option data (tryParseColor ''#1abc'') = Some 0x11aabbcc
   \<and> map_option data (tryParseColor ''#112233'') = Some 0xff112233
   \<and> map_option data (tryParseColor ''#11223344'') = Some 0x11223344
   \<and> tryParseColor ''#12345'' = None
   \<and> tryParseColor ''#12g'' = None"
proof -
  have t: "trimWhitespace '' #abc '' = ''#abc''" "trimWhitespace ''#1abc'' = ''#1abc''"
    "trimWhitespace ''#112233'' = ''#112233''" "trimWhitespace ''#11223344'' = ''#11223344''"
    "trimWhitespace ''#12345'' = ''#12345''" "trimWhitespace ''#12g'' = ''#12g''"
    by (simp_all add: trimWhitespace_def isspace_def)
  have n: "colorOfText ''#12345'' = None" "colorOfText ''#12g'' = None"
    by (simp_all add: colorOfText_def replicateColorDigits_def isHexDigit_def)
  show ?thesis
    using tryParseColor_trimmed_argb [of "'' #abc ''"] tryParseColor_trimmed_argb [of "''#1abc''"]
      tryParseColor_trimmed_argb [of "''#112233''"] tryParseColor_trimmed_argb [of "''#11223344''"]
      tryParseColor_trimmed_argb [of "''#12345''"] tryParseColor_trimmed_argb [of "''#12g''"]
    by (simp only: t n) simp
qed

text \<open>
  Claim C4 as it was stated, "accepts exactly the \<open>#\<close>-prefixed strings", fails on a text
  that starts with a blank: it is accepted, and it does not start with \<open>#\<close>.
\<close>

theorem tryParseColor_untrimmed_counterexample:
  "tryParseColor '' #abc'' = Some \<lparr>dataType = Res_value_TYPE_INT_COLOR_RGB4, data = 0xffaabbcc\<rparr>
   \<and> take 1 '' #abc'' \<noteq> ''#''
   \<and> colorOfText '' #abc'' = None"
  by (simp add: tryParseColor_def trimWhitespace_def isspace_def Let_def hexAt_def
      hexErrorAt_def parseHex_def colorOfText_def)

section \<open>Flags\<close>

lemma findFlagSymbol_find:
  "findFlagSymbol syms t =
     map_option symbolValue (find (\<lambda>s. entry (name (symbol s)) = t) syms)"
  by (induction syms) auto

lemma findFlagSymbol_None_iff:
  "findFlagSymbol syms (trimWhitespace tok) = None \<longleftrightarrow> \<not> tokenMatches syms tok"
  by (induction syms) (auto simp: tokenMatches_def)

lemma findFlagSymbol_Some:
  "findFlagSymbol syms (trimWhitespace tok) = Some v \<Longrightarrow> tokenValue syms tok = v"
  by (auto simp: findFlagSymbol_find tokenValue_def split: option.splits)

lemma flagSymbolLoop_spec:
  "flagSymbolLoop syms toks acc =
     (if list_all (tokenMatches syms) toks then Some (acc OR orOfTokens syms toks) else None)"
proof (induction toks arbitrary: acc)
  case Nil
  show ?case by (simp add: orOfTokens_def)
next
  case (Cons tok toks)
  show ?case
  proof (cases "findFlagSymbol syms (trimWhitespace tok)")
    case None
    then show ?thesis using findFlagSymbol_None_iff [of syms tok] by simp
  next
    case (Some v)
    then have m: "tokenMatches syms tok"
      using findFlagSymbol_None_iff [of syms tok] by auto
    have v: "tokenValue syms tok = v" using Some by (rule findFlagSymbol_Some)
    have o: "orOfTokens syms (tok # toks) = v OR orOfTokens syms toks"
      by (simp add: orOfTokens_def v)
    show ?thesis using Some m Cons.IH [of "acc OR v"] by (simp add: o or.assoc)
  qed
qed

text \<open>
  Claim C5. For every flag attribute and every text (and whatever tokens the tokenizer
  makes of the text at \<open>|\<close>): when the text is empty or all whitespace,
  \<open>tryParseFlagSymbol\<close> returns the value 0; otherwise, when every token, trimmed, is the
  entry of some symbol of the attribute, it returns the bitwise OR of the tokens'
  values; otherwise (some token matches no symbol) it returns no value. The value is
  tagged \<open>TYPE_INT_HEX\<close>.
\<close>

theorem tryParseFlagSymbol_or:
  "tryParseFlagSymbol tokenizer flagAttr str =
     (if trimWhitespace str = [] then
        Some \<lparr>dataType = Res_value_TYPE_INT_HEX, data = 0\<rparr>
      else if list_all (tokenMatches (symbols flagAttr)) (tokenizer str CHR ''|'') then
        Some \<lparr>dataType = Res_value_TYPE_INT_HEX,
              data = orOfTokens (symbols flagAttr) (tokenizer str CHR ''|'')\<rparr>
      else None)"
  by (simp add: tryParseFlagSymbol_def flagSymbolLoop_spec zeroValue_def Let_def)

text \<open>
  The theorem at the spec's example: \<open>A|B\<close> is \<open>0x3\<close>, blank texts are 0, and an unknown
  token is a failure.
\<close>

theorem tryParseFlagSymbol_or_witness:
  "tryParseFlagSymbol tokenize flagAB ''A|B''
     = Some \<lparr>dataType = Res_value_TYPE_INT_HEX, data = 0x3\<rparr>
   \<and> tryParseFlagSymbol tokenize flagAB '' A | B ''
     = Some \<lparr>dataType = Res_value_TYPE_INT_HEX, data = 0x3\<rparr>
   \<and> tryParseFlagSymbol tokenize flagAB []
     = Some \<lparr>dataType = Res_value_TYPE_INT_HEX, data = 0x0\<rparr>
   \<and> tryParseFlagSymbol tokenize flagAB ''   ''
     = Some \<lparr>dataType = Res_value_TYPE_INT_HEX, data = 0x0\<rparr>
   \<and> tryParseFlagSymbol tokenize flagAB ''A|C'' = None"
  using tryParseFlagSymbol_or [of tokenize flagAB "''A|B''"]
    tryParseFlagSymbol_or [of tokenize flagAB "'' A | B ''"]
    tryParseFlagSymbol_or [of tokenize flagAB "[]"]
    tryParseFlagSymbol_or [of tokenize flagAB "''   ''"]
    tryParseFlagSymbol_or [of tokenize flagAB "''A|C''"]
  by (simp add: flagAB_def trimWhitespace_def isspace_def tokenMatches_def orOfTokens_def
      tokenValue_def)

section \<open>Booleans\<close>

lemma not_sentinel_or_reference:
  assumes "trimWhitespace val \<noteq> []" "hd (trimWhitespace val) \<noteq> CHR ''@''"
    "hd (trimWhitespace val) \<noteq> CHR ''?''"
  shows "tryParseNullOrEmpty val = None" "tryParseReference prt val = None"
  using assms
  by (auto simp: tryParseNullOrEmpty_def tryParseReference_def parseReference_def
      parseAttributeReference_def Let_def)

lemma not_color:
  assumes "trimWhitespace val \<noteq> []" "hd (trimWhitespace val) \<noteq> CHR ''#''"
  shows "tryParseColor val = None"
  using assms by (cases "trimWhitespace val") (auto simp: tryParseColor_def Let_def)

lemma item_bool:
  assumes m: "acceptedMask AND TYPE_BOOLEAN \<noteq> 0"
    and b: "tryParseBool val = Some v"
  shows "tryParseItemForAttribute prt stringToInt stringToFloat val acceptedMask
         = (Some (BinaryPrimitive v), [])"
proof -
  from b have t: "trimWhitespace val \<in> {''true'', ''TRUE'', ''True'', ''false'', ''FALSE'', ''False''}"
    by (auto simp: tryParseBool_def parseBool_def Let_def split: option.splits if_splits)
  then have h: "trimWhitespace val \<noteq> []" "hd (trimWhitespace val) \<noteq> CHR ''@''"
    "hd (trimWhitespace val) \<noteq> CHR ''?''" "hd (trimWhitespace val) \<noteq> CHR ''#''"
    by auto
  have n: "tryParseNullOrEmpty val = None" "tryParseReference prt val = None"
    "tryParseColor val = None"
    using h by (simp_all add: not_sentinel_or_reference not_color)
  show ?thesis
    using m b by (simp add: tryParseItemForAttribute_def n)
qed

text \<open>
  Claim C6, as amended. When the accepted-type mask allows boolean,
  \<open>tryParseItemForAttribute\<close> recognizes the spellings \<open>true\<close>, \<open>TRUE\<close>, \<open>True\<close> and
  \<open>false\<close>, \<open>FALSE\<close>, \<open>False\<close> of the trimmed text, and produces a \<open>BinaryPrimitive\<close> tagged
  boolean whose data word is all ones for true and all zeros for false; no other
  spelling is parsed as a boolean.
\<close>

theorem parseItemForAttribute_bool_spellings:
  assumes "acceptedMask AND TYPE_BOOLEAN \<noteq> 0"
  shows "(trimWhitespace val \<in> {''true'', ''TRUE'', ''True''} \<longrightarrow>
            tryParseItemForAttribute prt stringToInt stringToFloat val acceptedMask
            = (Some (BinaryPrimitive \<lparr>dataType = Res_value_TYPE_INT_BOOLEAN, data = 0xffffffff\<rparr>), []))
       \<and> (trimWhitespace val \<in> {''false'', ''FALSE'', ''False''} \<longrightarrow>
            tryParseItemForAttribute prt stringToInt stringToFloat val acceptedMask
            = (Some (BinaryPrimitive \<lparr>dataType = Res_value_TYPE_INT_BOOLEAN, data = 0\<rparr>), []))
       \<and> (trimWhitespace val \<notin> {''true'', ''TRUE'', ''True'', ''false'', ''FALSE'', ''False''} \<longrightarrow>
            tryParseBool val = None)"
proof (intro conjI impI)
  assume "trimWhitespace val \<in> {''true'', ''TRUE'', ''True''}"
  then have "tryParseBool val = Some \<lparr>dataType = Res_value_TYPE_INT_BOOLEAN, data = 0xffffffff\<rparr>"
    by (auto simp: tryParseBool_def parseBool_def zeroValue_def)
  then show "tryParseItemForAttribute prt stringToInt stringToFloat val acceptedMask
            = (Some (BinaryPrimitive \<lparr>dataType = Res_value_TYPE_INT_BOOLEAN, data = 0xffffffff\<rparr>), [])"
    using assms by (rule item_bool [rotated])
next
  assume "trimWhitespace val \<in> {''false'', ''FALSE'', ''False''}"
  then have "tryParseBool val = Some \<lparr>dataType = Res_value_TYPE_INT_BOOLEAN, data = 0\<rparr>"
    by (auto simp: tryParseBool_def parseBool_def zeroValue_def)
  then show "tryParseItemForAttribute prt stringToInt stringToFloat val acceptedMask
            = (Some (BinaryPrimitive \<lparr>dataType = Res_value_TYPE_INT_BOOLEAN, data = 0\<rparr>), [])"
    using assms by (rule item_bool [rotated])
next
  assume "trimWhitespace val \<notin> {''true'', ''TRUE'', ''True'', ''false'', ''FALSE'', ''False''}"
  then show "tryParseBool val = None"
    by (simp add: tryParseBool_def parseBool_def)
qed

text \<open>The theorem at a mask that allows boolean and color.\<close>

theorem parseItemForAttribute_bool_spellings_witness:
  "(TYPE_BOOLEAN OR TYPE_COLOR) AND TYPE_BOOLEAN \<noteq> 0
   \<and> tryParseItemForAttribute parseResourceType Map.empty Map.empty '' TRUE '' (TYPE_BOOLEAN OR TYPE_COLOR)
       = (Some (BinaryPrimitive \<lparr>dataType = Res_value_TYPE_INT_BOOLEAN, data = 0xffffffff\<rparr>), [])
   \<and> tryParseItemForAttribute parseResourceType Map.empty Map.empty ''False'' (TYPE_BOOLEAN OR TYPE_COLOR)
       = (Some (BinaryPrimitive \<lparr>dataType = Res_value_TYPE_INT_BOOLEAN, data = 0\<rparr>), [])
   \<and> tryParseBool ''tRue'' = None"
proof -
  have m: "(TYPE_BOOLEAN OR TYPE_COLOR) AND TYPE_BOOLEAN \<noteq> 0"
    by (simp add: TYPE_BOOLEAN_def TYPE_COLOR_def)
  have t: "trimWhitespace '' TRUE '' = ''TRUE''" "trimWhitespace ''False'' = ''False''"
    "trimWhitespace ''tRue'' = ''tRue''"
    by (simp_all add: trimWhitespace_def isspace_def)
  show ?thesis
    using m parseItemForAttribute_bool_spellings [OF m, of "'' TRUE ''" parseResourceType Map.empty Map.empty]
      parseItemForAttribute_bool_spellings [OF m, of "''False''" parseResourceType Map.empty Map.empty]
      parseItemForAttribute_bool_spellings [OF m, of "''tRue''"]
    by (simp add: t)
qed

text \<open>
  Claim C6 as it was stated, "every case variant of the spelling", fails at \<open>tRue\<close>: it
  is \<open>true\<close> up to case, the mask allows boolean, and the text is not parsed.
\<close>

theorem parseItemForAttribute_bool_case_counterexample:
  "map asciiLower ''tRue'' = ''true''
   \<and> TYPE_BOOLEAN AND TYPE_BOOLEAN \<noteq> 0
   \<and> tryParseItemForAttribute parseResourceType Map.empty Map.empty ''tRue'' TYPE_BOOLEAN = (None, [])"
  by (simp add: asciiLower_def TYPE_BOOLEAN_def TYPE_COLOR_def TYPE_INTEGER_def TYPE_FLOAT_def
      TYPE_DIMENSION_def TYPE_FRACTION_def tryParseItemForAttribute_def
      tryParseNullOrEmpty_def tryParseReference_def parseReference_def
      parseAttributeReference_def tryParseBool_def parseBool_def trimWhitespace_def isspace_def)

section \<open>References\<close>

lemma trimWhitespace_keeps_prefix:
  assumes "xs \<noteq> []" "\<not> isspace (hd xs)" "\<not> isspace (last xs)"
  shows "trimWhitespace (xs @ rest) = xs @ rev (dropWhile isspace (rev rest))"
proof -
  have a: "dropWhile isspace (xs @ rest) = xs @ rest"
    using assms by (cases xs) auto
  have b: "dropWhile isspace (rev xs) = rev xs"
    using assms by (cases "rev xs") (auto simp: last_rev hd_rev)
  show ?thesis
    unfolding trimWhitespace_def a
    by (simp add: dropWhile_append b)
qed

lemma trim_at_plus:
  "trimWhitespace (CHR ''@'' # CHR ''+'' # rest)
   = CHR ''@'' # CHR ''+'' # rev (dropWhile isspace (rev rest))"
  using trimWhitespace_keeps_prefix [of "''@+''" rest]
  by (simp add: isspace_def)

lemma trim_at_plus_star:
  "trimWhitespace (CHR ''@'' # CHR ''+'' # CHR ''*'' # rest)
   = CHR ''@'' # CHR ''+'' # CHR ''*'' # rev (dropWhile isspace (rev rest))"
  using trimWhitespace_keeps_prefix [of "''@+*''" rest]
  by (simp add: isspace_def)

lemma parseResourceName_star:
  "parseResourceName prt (CHR ''*'' # s) = Some (n, priv) \<Longrightarrow> priv"
  by (auto simp: parseResourceName_def Let_def split: prod.splits option.splits if_splits)

lemma parseReference_Some_create:
  "parseReference prt str = Some (n, create, priv) \<Longrightarrow> create \<Longrightarrow> type n = kId \<and> \<not> priv"
  by (auto simp: parseReference_def Let_def split: if_splits option.splits prod.splits)

text \<open>
  Claim C9. \<open>parseReference\<close> accepts the create marker \<open>+\<close> on id references only. For
  every text that begins with \<open>@+\<close>: when the name after the marker parses to a resource
  type other than id, or is marked private with \<open>*\<close>, \<open>parseReference\<close> fails; a text that
  begins with \<open>@+*\<close> always fails. So \<open>tryParseReference\<close> reports create = true only
  for a reference whose type is id (and which is a resource reference, not private).
\<close>

theorem parseReference_create_only_id:
  "(\<forall>rest n priv.
       parseResourceName prt (drop 2 (trimWhitespace (''@+'' @ rest))) = Some (n, priv)
       \<and> (type n \<noteq> kId \<or> priv) \<longrightarrow> parseReference prt (''@+'' @ rest) = None)
   \<and> (\<forall>rest. parseReference prt (''@+*'' @ rest) = None)
   \<and> (\<forall>str r. tryParseReference prt str = Some (r, True)
         \<longrightarrow> type (name r) = kId \<and> referenceType r = kResource \<and> \<not> privateReference r)"
proof -
  have a: "parseReference prt (''@+'' @ rest) = None"
    if "parseResourceName prt (drop 2 (trimWhitespace (''@+'' @ rest))) = Some (n, priv)
       \<and> (type n \<noteq> kId \<or> priv)" for rest n priv
    using that trim_at_plus [of rest]
    by (auto simp: parseReference_def Let_def)
  have b: "parseReference prt (''@+*'' @ rest) = None" for rest
    using trim_at_plus_star [of rest] parseResourceName_star [of prt]
    by (auto simp: parseReference_def Let_def split: option.splits)
  have c: "type (name r) = kId \<and> referenceType r = kResource \<and> \<not> privateReference r"
    if "tryParseReference prt str = Some (r, True)" for str r
    using that
    by (auto simp: tryParseReference_def split: option.splits prod.splits
        dest: parseReference_Some_create)
  from a b c show ?thesis by blast
qed

text \<open>
  The theorem at concrete texts: \<open>@+string/foo\<close> parses to the type string and fails,
  \<open>@+*id/foo\<close> fails, and \<open>@+id/foo\<close> is the id reference that is reported with create.
\<close>

theorem parseReference_create_only_id_witness:
  "parseResourceName parseResourceType (drop 2 (trimWhitespace (''@+'' @ ''string/foo'')))
     = Some (\<lparr>package = [], type = kString, entry = ''foo''\<rparr>, False)
   \<and> parseReference parseResourceType ''@+string/foo'' = None
   \<and> parseReference parseResourceType ''@+*id/foo'' = None
   \<and> tryParseReference parseResourceType ''@+id/foo''
       = Some (\<lparr>name = \<lparr>package = [], type = kId, entry = ''foo''\<rparr>,
                 referenceType = kResource, privateReference = False\<rparr>, True)"
proof -
  have h: "parseResourceName parseResourceType (drop 2 (trimWhitespace (''@+'' @ ''string/foo'')))
     = Some (\<lparr>package = [], type = kString, entry = ''foo''\<rparr>, False)"
    by (simp add: trimWhitespace_def isspace_def parseResourceName_def extractResourceName_def
        parseResourceType_def)
  have k: "tryParseReference parseResourceType ''@+id/foo''
       = Some (\<lparr>name = \<lparr>package = [], type = kId, entry = ''foo''\<rparr>,
                 referenceType = kResource, privateReference = False\<rparr>, True)"
    by (simp add: tryParseReference_def parseReference_def trimWhitespace_def isspace_def
        parseResourceName_def extractResourceName_def parseResourceType_def)
  have t: "type \<lparr>package = [], type = kString, entry = ''foo''\<rparr> \<noteq> kId"
    by simp
  from parseReference_create_only_id [of parseResourceType] h t
  have "parseReference parseResourceType (''@+'' @ ''string/foo'') = None"
    by blast
  moreover from parseReference_create_only_id [of parseResourceType]
  have "parseReference parseResourceType (''@+*'' @ ''id/foo'') = None"
    by blast
  ultimately show ?thesis using h k by simp
qed

section \<open>Sentinels\<close>

text \<open>
  Claim C10. \<open>tryParseNullOrEmpty\<close> looks at the trimmed text: \<open>@null\<close> gives the data
  type \<open>TYPE_REFERENCE\<close> with data 0, \<open>@empty\<close> gives the data type \<open>TYPE_NULL\<close> with data
  \<open>DATA_NULL_EMPTY\<close>, and every other text gives no value; the two data types differ.
\<close>

theorem tryParseNullOrEmpty_sentinels:
  "tryParseNullOrEmpty str =
     (if trimWhitespace str = ''@null'' then
        Some \<lparr>dataType = Res_value_TYPE_REFERENCE, data = 0\<rparr>
      else if trimWhitespace str = ''@empty'' then
        Some \<lparr>dataType = Res_value_TYPE_NULL, data = DATA_NULL_EMPTY\<rparr>
      else None)
   \<and> Res_value_TYPE_REFERENCE \<noteq> Res_value_TYPE_NULL"
  by (simp add: tryParseNullOrEmpty_def zeroValue_def Let_def
      Res_value_TYPE_REFERENCE_def Res_value_TYPE_NULL_def)

text \<open>The theorem at the two sentinels, with whitespace around one, and at two other texts.\<close>

theorem tryParseNullOrEmpty_sentinels_witness:
  "tryParseNullOrEmpty '' @null '' = Some \<lparr>dataType = 0x01, data = 0\<rparr>
   \<and> tryParseNullOrEmpty ''@empty'' = Some \<lparr>dataType = 0x00, data = 1\<rparr>
   \<and> tryParseNullOrEmpty ''@nul'' = None
   \<and> tryParseNullOrEmpty ''null'' = None"
  using tryParseNullOrEmpty_sentinels [of "'' @null ''"]
    tryParseNullOrEmpty_sentinels [of "''@empty''"]
    tryParseNullOrEmpty_sentinels [of "''@nul''"]
    tryParseNullOrEmpty_sentinels [of "''null''"]
  by (simp add: trimWhitespace_def isspace_def Res_value_TYPE_REFERENCE_def
      Res_value_TYPE_NULL_def DATA_NULL_EMPTY_def)

section \<open>The accepted format of an item\<close>

lemma elToItemMap_keys:
  "map_of elToItemMap ty = Some (itemType, itemFormat) \<Longrightarrow>
     ty \<in> {''bool'', ''color'', ''dimen'', ''drawable'', ''fraction'', ''integer'', ''string''}"
  by (auto simp: elToItemMap_def split: if_splits)

lemma parseFormatType_values:
  "parseFormatType f \<in> {0, TYPE_REFERENCE, TYPE_STRING, TYPE_INTEGER, TYPE_BOOLEAN, TYPE_COLOR,
      TYPE_FLOAT, TYPE_DIMENSION, TYPE_FRACTION, TYPE_ENUM, TYPE_FLAGS}"
  by (simp add: parseFormatType_def)

text \<open>
  Claim C7, as amended. For an element with a name whose type is one of the typed item
  kinds (\<open>bool\<close>, \<open>color\<close>, \<open>dimen\<close>, \<open>drawable\<close>, \<open>fraction\<close>, \<open>integer\<close>, \<open>string\<close>): on
  \<open><item type=...>\<close> a \<open>format=\<close> attribute replaces the implicit accepted-type mask by
  the one type bit that the format names, whether or not the implicit mask has that bit
  (a \<open>format=\<close> that names no type is an error), and without \<open>format=\<close> the mask is the
  implicit mask; the typed shorthand element does not read \<open>format=\<close> and always uses
  its implicit mask.
\<close>

theorem parseResource_item_format:
  assumes "findNonEmptyAttribute attrs ''name'' = Some n"
    and "map_of elToItemMap ty = Some (itemType, itemFormat)"
  shows "(findNonEmptyAttribute attrs ''type'' = Some ty \<longrightarrow>
            parseResource prt ''item'' attrs =
              (case findNonEmptyAttribute attrs ''format'' of
                 None \<Rightarrow> CallParseItem itemType n itemFormat
               | Some f \<Rightarrow>
                   if parseFormatType f = 0 then Failed (InvalidFormat f)
                   else CallParseItem itemType n (parseFormatType f)))
       \<and> parseResource prt ty attrs = CallParseItem itemType n itemFormat
       \<and> parseFormatType f' \<in> {0, TYPE_REFERENCE, TYPE_STRING, TYPE_INTEGER, TYPE_BOOLEAN,
            TYPE_COLOR, TYPE_FLOAT, TYPE_DIMENSION, TYPE_FRACTION, TYPE_ENUM, TYPE_FLAGS}"
proof -
  have k: "ty \<noteq> ''item''" "ty \<noteq> ''id''"
    using elToItemMap_keys [OF assms(2)] by auto
  have a: "parseResource prt ''item'' attrs =
              (case findNonEmptyAttribute attrs ''format'' of
                 None \<Rightarrow> CallParseItem itemType n itemFormat
               | Some f \<Rightarrow>
                   if parseFormatType f = 0 then Failed (InvalidFormat f)
                   else CallParseItem itemType n (parseFormatType f))"
    if "findNonEmptyAttribute attrs ''type'' = Some ty"
    using that assms k
    by (simp add: parseResource_def Let_def split: option.splits)
  have b: "parseResource prt ty attrs = CallParseItem itemType n itemFormat"
    using assms k by (simp add: parseResource_def Let_def)
  show ?thesis using a b parseFormatType_values by blast
qed

text \<open>
  The theorem at \<open><item type="bool" format="integer" name="x">\<close> and at \<open><bool>\<close> with the
  same attributes.
\<close>

theorem parseResource_item_format_witness:
  "findNonEmptyAttribute [''type'' \<mapsto> ''bool'', ''format'' \<mapsto> ''integer'', ''name'' \<mapsto> ''x'']
     ''name'' = Some ''x''
   \<and> map_of elToItemMap ''bool'' = Some (kBool, TYPE_BOOLEAN)
   \<and> parseResource parseResourceType ''item''
        [''type'' \<mapsto> ''bool'', ''format'' \<mapsto> ''integer'', ''name'' \<mapsto> ''x'']
       = CallParseItem kBool ''x'' TYPE_INTEGER
   \<and> parseResource parseResourceType ''bool''
        [''type'' \<mapsto> ''bool'', ''format'' \<mapsto> ''integer'', ''name'' \<mapsto> ''x'']
       = CallParseItem kBool ''x'' TYPE_BOOLEAN"
proof -
  have n: "findNonEmptyAttribute [''type'' \<mapsto> ''bool'', ''format'' \<mapsto> ''integer'', ''name'' \<mapsto> ''x'']
     ''name'' = Some ''x''"
    by (simp add: findNonEmptyAttribute_def)
  have m: "map_of elToItemMap ''bool'' = Some (kBool, TYPE_BOOLEAN)"
    by (simp add: elToItemMap_def)
  have t: "findNonEmptyAttribute [''type'' \<mapsto> ''bool'', ''format'' \<mapsto> ''integer'', ''name'' \<mapsto> ''x'']
     ''type'' = Some ''bool''"
    "findNonEmptyAttribute [''type'' \<mapsto> ''bool'', ''format'' \<mapsto> ''integer'', ''name'' \<mapsto> ''x'']
     ''format'' = Some ''integer''"
    by (simp_all add: findNonEmptyAttribute_def)
  have f: "parseFormatType ''integer'' = TYPE_INTEGER" "TYPE_INTEGER \<noteq> 0"
    by (simp_all add: parseFormatType_def TYPE_INTEGER_def)
  show ?thesis
    using n m parseResource_item_format [OF n m, of parseResourceType]
    by (simp add: t f)
qed

text \<open>
  Claim C7 as it was stated, "\<open>format=\<close> never widens", fails at
  \<open><item type="bool" format="color">\<close>: the mask becomes color, which the implicit
  boolean mask does not contain, and the text \<open>#abc\<close> is accepted under the resulting
  mask and not under the implicit one.
\<close>

theorem parseResource_format_widens_counterexample:
  "parseResource parseResourceType ''item''
        [''type'' \<mapsto> ''bool'', ''format'' \<mapsto> ''color'', ''name'' \<mapsto> ''x'']
       = CallParseItem kBool ''x'' TYPE_COLOR
   \<and> parseResource parseResourceType ''item'' [''type'' \<mapsto> ''bool'', ''name'' \<mapsto> ''x'']
       = CallParseItem kBool ''x'' TYPE_BOOLEAN
   \<and> TYPE_COLOR AND NOT TYPE_BOOLEAN \<noteq> 0
   \<and> parseXml parseResourceType Map.empty Map.empty (Some (''#abc'', ''#abc'', []))
        TYPE_COLOR False
       = Some (BinaryPrimitive \<lparr>dataType = Res_value_TYPE_INT_COLOR_RGB4, data = 0xffaabbcc\<rparr>)
   \<and> parseXml parseResourceType Map.empty Map.empty (Some (''#abc'', ''#abc'', []))
        TYPE_BOOLEAN False
       = None"
proof -
  have a: "parseResource parseResourceType ''item''
        [''type'' \<mapsto> ''bool'', ''format'' \<mapsto> ''color'', ''name'' \<mapsto> ''x'']
       = CallParseItem kBool ''x'' TYPE_COLOR"
    "parseResource parseResourceType ''item'' [''type'' \<mapsto> ''bool'', ''name'' \<mapsto> ''x'']
       = CallParseItem kBool ''x'' TYPE_BOOLEAN"
    by (simp_all add: parseResource_def findNonEmptyAttribute_def parseFormatType_def
        elToItemMap_def TYPE_COLOR_def TYPE_BOOLEAN_def)
  have b: "TYPE_COLOR AND NOT TYPE_BOOLEAN \<noteq> 0"
    by (simp add: TYPE_COLOR_def TYPE_BOOLEAN_def)
  have t: "trimWhitespace ''#abc'' = ''#abc''"
    by (simp add: trimWhitespace_def isspace_def)
  have n: "tryParseNullOrEmpty ''#abc'' = None" "tryParseReference parseResourceType ''#abc'' = None"
    by (simp_all add: not_sentinel_or_reference t)
  have c: "tryParseColor ''#abc''
           = Some \<lparr>dataType = Res_value_TYPE_INT_COLOR_RGB4, data = 0xffaabbcc\<rparr>"
    by (simp add: tryParseColor_def t Let_def hexAt_def hexErrorAt_def parseHex_def)
  have d: "tryParseBool ''#abc'' = None"
    by (simp add: tryParseBool_def parseBool_def t)
  have m: "TYPE_COLOR \<noteq> 0" "TYPE_BOOLEAN AND TYPE_COLOR = 0"
    "TYPE_BOOLEAN AND TYPE_BOOLEAN \<noteq> 0" "TYPE_BOOLEAN AND TYPE_INTEGER = 0"
    "TYPE_BOOLEAN AND (TYPE_FLOAT OR TYPE_DIMENSION OR TYPE_FRACTION) = 0"
    "TYPE_BOOLEAN AND TYPE_STRING = 0"
    by (simp_all add: TYPE_COLOR_def TYPE_BOOLEAN_def TYPE_INTEGER_def TYPE_FLOAT_def
        TYPE_DIMENSION_def TYPE_FRACTION_def TYPE_STRING_def)
  have e: "parseXml parseResourceType Map.empty Map.empty (Some (''#abc'', ''#abc'', []))
        TYPE_COLOR False
       = Some (BinaryPrimitive \<lparr>dataType = Res_value_TYPE_INT_COLOR_RGB4, data = 0xffaabbcc\<rparr>)"
    by (simp add: parseXml_def tryParseItemForAttribute_def n c m)
  have g: "parseXml parseResourceType Map.empty Map.empty (Some (''#abc'', ''#abc'', []))
        TYPE_BOOLEAN False = None"
    by (simp add: parseXml_def tryParseItemForAttribute_def n d m Let_def)
  show ?thesis using a b e g by simp
qed

section \<open>The executor on a document without a root element\<close>

text \<open>
  Claim C8. On a document with no root element, \<open>XmlActionExecutor::Execute\<close> returns
  failure and reports the error "no root XML tag found" under the whitelist policy, and
  under any other policy it returns success and reports nothing.
\<close>

theorem Execute_no_root:
  assumes "FindRootElement doc = None"
  shows "XmlActionExecutor_Execute FindRootElement policy rootMap doc =
           (if policy = kWhitelist
            then (False, [DiagMessage None ''no root XML tag found''])
            else (True, []))"
  using assms by (simp add: XmlActionExecutor_Execute_def)

text \<open>The theorem at a document that is only its (missing) root, under both policies.\<close>

theorem Execute_no_root_witness:
  "id (None :: Element option) = None
   \<and> XmlActionExecutor_Execute id kWhitelist [] (None :: Element option)
       = (False, [DiagMessage None ''no root XML tag found''])
   \<and> XmlActionExecutor_Execute id kNone [] (None :: Element option) = (True, [])"
  using Execute_no_root [of id "None :: Element option" kWhitelist "[]"]
    Execute_no_root [of id "None :: Element option" kNone "[]"]
  by simp

section \<open>Lookups in a changed table\<close>

lemma find_replace:
  assumes "k y = m"
  shows "find (\<lambda>x. k x = n) (map (\<lambda>x. if k x = m then y else x) xs)
         = (if n = m then (if find (\<lambda>x. k x = m) xs = None then None else Some y)
            else find (\<lambda>x. k x = n) xs)"
  using assms by (induction xs) auto

lemma find_insort_new:
  assumes "find (\<lambda>x. k x = k y) xs = None"
  shows "find (\<lambda>x. k x = n) (insort_key k y xs)
         = (if n = k y then Some y else find (\<lambda>x. k x = n) xs)"
  using assms by (induction xs) (auto split: if_splits)

lemma find_append_new:
  assumes "find (\<lambda>x. k x = k y) xs = None"
  shows "find (\<lambda>x. k x = n) (xs @ [y])
         = (if n = k y then Some y else find (\<lambda>x. k x = n) xs)"
  using assms by (induction xs) (auto split: if_splits)

lemma findEntry_storeEntry:
  "findEntry (storeEntry t e) n = (if n = entryName e then Some e else findEntry t n)"
  by (auto simp: findEntry_def storeEntry_def find_replace find_insort_new)

lemma findType_storeType:
  "findType (storeType p t) ty = (if ty = resourceType t then Some t else findType p ty)"
  by (auto simp: findType_def storeType_def find_replace find_append_new)

lemma findPackage_storePackage:
  "findPackage (storePackage tbl p) n = (if n = packageName p then Some p else findPackage tbl n)"
  by (auto simp: findPackage_def storePackage_def find_replace find_insort_new)

lemma find_key: "find (\<lambda>x. k x = n) xs = Some y \<Longrightarrow> k y = n"
  by (auto simp: find_Some_iff)

lemma findOrCreatePackage_name [simp]: "packageName (findOrCreatePackage tbl n) = n"
  by (auto simp: findOrCreatePackage_def findPackage_def newPackage_def
      split: option.splits dest: find_key)

lemma findOrCreateType_type [simp]: "resourceType (findOrCreateType p ty) = ty"
  by (auto simp: findOrCreateType_def findType_def newType_def
      split: option.splits dest: find_key)

lemma findOrCreateEntry_name [simp]: "entryName (findOrCreateEntry t n) = n"
  by (auto simp: findOrCreateEntry_def findEntry_def newEntry_def
      split: option.splits dest: find_key)


lemma findType_findOrCreatePackage:
  "findType (findOrCreatePackage tbl n) ty
   = (case findPackage tbl n of None \<Rightarrow> None | Some p \<Rightarrow> findType p ty)"
  by (simp add: findOrCreatePackage_def findType_def newPackage_def split: option.splits)

lemma findEntry_findOrCreateType:
  "findEntry (findOrCreateType p ty) n
   = (case findType p ty of None \<Rightarrow> None | Some t \<Rightarrow> findEntry t n)"
  by (simp add: findOrCreateType_def findEntry_def newType_def split: option.splits)

lemma findOrCreateEntry_eq:
  "findOrCreateEntry t n = (case findEntry t n of Some e \<Rightarrow> e | None \<Rightarrow> newEntry n)"
  by (simp add: findOrCreateEntry_def)

lemma findResource_alt:
  "findResource tbl nm
   = findEntry (findOrCreateType (findOrCreatePackage tbl (package nm)) (type nm)) (entry nm)"
  by (simp add: findResource_def findEntry_findOrCreateType findType_findOrCreatePackage
      split: option.splits)

lemma packageName_storeType [simp]: "packageName (storeType p t) = packageName p"
  by (simp add: storeType_def)

lemma resourceType_storeEntry [simp]: "resourceType (storeEntry t e) = resourceType t"
  by (simp add: storeEntry_def)

lemma ResourceName_eq_iff:
  "(nm' = nm) = (package nm' = package nm \<and> type nm' = type nm \<and> entry nm' = entry nm)"
  for nm nm' :: ResourceName
  by (cases nm, cases nm') auto

lemma findResource_updateEntry:
  assumes f: "\<And>e. entryName (f e) = entryName e"
  shows "findResource (updateEntry tbl nm f) nm'
         = (if nm' = nm
            then Some (f (case findResource tbl nm of Some e \<Rightarrow> e | None \<Rightarrow> newEntry (entry nm)))
            else findResource tbl nm')"
proof -
  define p where "p = findOrCreatePackage tbl (package nm)"
  define t where "t = findOrCreateType p (type nm)"
  define e where "e = findOrCreateEntry t (entry nm)"
  have u: "updateEntry tbl nm f = storePackage tbl (storeType p (storeEntry t (f e)))"
    by (simp add: updateEntry_def Let_def p_def t_def e_def)
  have pn: "packageName p = package nm" by (simp add: p_def)
  have tn: "resourceType t = type nm" by (simp add: t_def)
  have en: "entryName (f e) = entry nm" by (simp add: f e_def)
  have old: "findResource tbl nm = findEntry t (entry nm)"
    by (simp add: findResource_alt t_def p_def)
  have e_eq: "e = (case findResource tbl nm of Some x \<Rightarrow> x | None \<Rightarrow> newEntry (entry nm))"
    by (simp add: old e_def findOrCreateEntry_eq)
  show ?thesis
  proof (cases "package nm' = package nm")
    case False
    then show ?thesis
      by (auto simp: u findResource_def findPackage_storePackage pn)
  next
    case pk: True
    have step1: "findResource (updateEntry tbl nm f) nm'
          = (case findType (storeType p (storeEntry t (f e))) (type nm') of
               None \<Rightarrow> None | Some x \<Rightarrow> findEntry x (entry nm'))"
      by (simp add: u findResource_def findPackage_storePackage pn pk)
    have old': "findResource tbl nm'
          = (case findType p (type nm') of None \<Rightarrow> None | Some x \<Rightarrow> findEntry x (entry nm'))"
      by (simp add: findResource_def p_def pk findType_findOrCreatePackage split: option.splits)
    show ?thesis
    proof (cases "type nm' = type nm")
      case False
      then show ?thesis
        by (simp add: step1 old' findType_storeType tn ResourceName_eq_iff)
    next
      case ty: True
      have step2: "findResource (updateEntry tbl nm f) nm'
            = findEntry (storeEntry t (f e)) (entry nm')"
        by (simp add: step1 findType_storeType tn ty)
      have old'': "findResource tbl nm' = findEntry t (entry nm')"
        by (simp add: old' ty t_def findEntry_findOrCreateType)
      show ?thesis
        by (simp add: step2 old'' findEntry_storeEntry en ResourceName_eq_iff pk ty e_eq [symmetric])
    qed
  qed
qed

section \<open>Symbol states\<close>

lemma stateRank_lower: "stateRank st < stateRank kPublic \<longleftrightarrow> st \<noteq> kPublic"
  by (cases st) (simp_all add: stateRank_def)

lemma setSymbolState_keeps_public:
  assumes "isPublic tbl nm"
  shows "isPublic (snd (setSymbolState tbl nm2 src2 st2)) nm"
proof (cases "nm2 = nm")
  case True
  then show ?thesis
    using assms
    by (auto simp: isPublic_def setSymbolState_def stateRank_lower findResource_updateEntry
        split: option.splits)
next
  case False
  then show ?thesis
    using assms
    by (auto simp: isPublic_def setSymbolState_def findResource_updateEntry
        split: option.splits)
qed

lemma setSymbolStateCalls_keep_public:
  "isPublic tbl nm \<Longrightarrow> isPublic (setSymbolStateCalls tbl calls) nm"
proof (induction calls arbitrary: tbl)
  case Nil
  then show ?case by simp
next
  case (Cons c calls)
  obtain nm2 src2 st2 where c: "c = (nm2, src2, st2)" by (cases c)
  show ?case
    using Cons.IH [OF setSymbolState_keeps_public [OF Cons.prems, of nm2 src2 st2]]
    by (simp add: c)
qed

lemma setSymbolState_public_sets:
  "setSymbolState tbl nm src kPublic = (ok, tbl1) \<Longrightarrow> ok \<and> isPublic tbl1 nm"
  by (auto simp: setSymbolState_def isPublic_def stateRank_def findResource_updateEntry
      split: option.splits if_splits)

lemma setSymbolState_lower_fails:
  assumes "isPublic tbl nm" "st \<noteq> kPublic"
  shows "setSymbolState tbl nm src st = (False, tbl)"
  using assms
  by (auto simp: setSymbolState_def isPublic_def stateRank_lower split: option.splits)

text \<open>
  Claim C1. Once a \<open>setSymbolState\<close> call has set the symbol state of an entry to Public
  with success, then after any further \<open>setSymbolState\<close> calls on the table, a call on
  that entry that requests a lower state (Private or Undefined) fails and leaves the
  table as it is, with the entry's state Public.
\<close>

theorem setSymbolState_public_never_lowered:
  assumes "setSymbolState table nm src kPublic = (True, table1)"
    and "st = kPrivate \<or> st = kUndefined"
  shows "setSymbolState (setSymbolStateCalls table1 calls) nm src' st
           = (False, setSymbolStateCalls table1 calls)
       \<and> map_option (\<lambda>e. state (symbolStatus e))
           (findResource (setSymbolStateCalls table1 calls) nm) = Some kPublic"
proof -
  have "isPublic table1 nm"
    using setSymbolState_public_sets [OF assms(1)] by simp
  then have p: "isPublic (setSymbolStateCalls table1 calls) nm"
    by (rule setSymbolStateCalls_keep_public)
  have "st \<noteq> kPublic" using assms(2) by auto
  then show ?thesis
    using p setSymbolState_lower_fails [OF p] by (simp add: isPublic_def)
qed

text \<open>
  The theorem on the empty table: \<open>bool/foo\<close> is made public, another entry is made
  private and \<open>bool/foo\<close> is set public again; then private is refused for \<open>bool/foo\<close>.
\<close>

theorem setSymbolState_public_never_lowered_witness:
  "setSymbolState emptyTable fooName ''a.xml'' kPublic
     = (True, snd (setSymbolState emptyTable fooName ''a.xml'' kPublic))
   \<and> setSymbolState
       (setSymbolStateCalls (snd (setSymbolState emptyTable fooName ''a.xml'' kPublic))
          [(barName, ''b.xml'', kPrivate), (fooName, ''c.xml'', kPublic)])
       fooName ''d.xml'' kPrivate
     = (False,
        setSymbolStateCalls (snd (setSymbolState emptyTable fooName ''a.xml'' kPublic))
          [(barName, ''b.xml'', kPrivate), (fooName, ''c.xml'', kPublic)])"
proof -
  have h: "setSymbolState emptyTable fooName ''a.xml'' kPublic
     = (True, snd (setSymbolState emptyTable fooName ''a.xml'' kPublic))"
    by (simp add: setSymbolState_def emptyTable_def findResource_def findPackage_def)
  show ?thesis
    using h setSymbolState_public_never_lowered [OF h, of kPrivate
        "[(barName, ''b.xml'', kPrivate), (fooName, ''c.xml'', kPublic)]" "''d.xml''"]
    by simp
qed

section \<open>Merging tables\<close>

lemma fold_preserves:
  assumes "\<And>x a. x \<in> set xs \<Longrightarrow> P a \<Longrightarrow> P (g x a)" "P a"
  shows "P (fold g xs a)"
  using assms by (induction xs arbitrary: a) auto


lemma fold_establishes:
  assumes x: "x \<in> set xs"
    and r: "\<And>a. R (g x a)"
    and m: "\<And>y a. R a \<Longrightarrow> R (g y a)"
  shows "R (fold g xs a)"
  using x
proof (induction xs arbitrary: a)
  case Nil
  then show ?case by simp
next
  case (Cons y ys)
  show ?case
  proof (cases "x = y")
    case True
    have "R (fold g ys (g x a))"
      by (rule fold_preserves [where P = R, rotated]) (rule r, rule m)
    then show ?thesis using True by simp
  next
    case False
    then have "x \<in> set ys" using Cons.prems by simp
    then show ?thesis using Cons.IH by simp
  qed
qed







lemma mergeEntry_monotone:
  "findResource (snd acc) n \<noteq> None
    \<Longrightarrow> findResource (snd (mergeEntry rvc overlay allowNew target srcEntry acc)) n \<noteq> None"
  by (cases acc) (auto simp: mergeEntry_def Let_def findResource_updateEntry split: prod.splits)



lemma mergeEntry_creates:
  "findResource (snd (mergeEntry rvc overlay True target srcEntry acc)) target \<noteq> None"
  by (cases acc) (auto simp: mergeEntry_def Let_def findResource_updateEntry split: prod.splits)



lemma mergeType_monotone:
  "findResource (snd acc) n \<noteq> None
    \<Longrightarrow> findResource (snd (mergeType rvc c m overlay allowNew pn srcType acc)) n \<noteq> None"
  unfolding mergeType_def
  by (rule fold_preserves [where P = "\<lambda>a. findResource (snd a) n \<noteq> None"])
    (simp_all add: mergeEntry_monotone)



lemma mergeType_creates:
  assumes "e \<in> set (entries srcType)"
  shows "findResource (snd (mergeType rvc c m overlay True pn srcType acc))
           (targetName c m pn (resourceType srcType) (entryName e)) \<noteq> None"
  unfolding mergeType_def
  by (rule fold_establishes [where x = e
        and R = "\<lambda>a. findResource (snd a)
                        (targetName c m pn (resourceType srcType) (entryName e)) \<noteq> None"])
    (simp_all add: assms mergeEntry_creates mergeEntry_monotone)



lemma doMerge_monotone:
  "findResource (snd acc) n \<noteq> None
    \<Longrightarrow> findResource (snd (doMerge rvc c m overlay allowNew srcPackage acc)) n \<noteq> None"
  unfolding doMerge_def
  by (rule fold_preserves [where P = "\<lambda>a. findResource (snd a) n \<noteq> None"])
    (simp_all add: mergeType_monotone)



lemma doMerge_creates:
  assumes "t \<in> set (types srcPackage)" "e \<in> set (entries t)"
  shows "findResource (snd (doMerge rvc c m overlay True srcPackage acc))
           (targetName c m (packageName srcPackage) (resourceType t) (entryName e)) \<noteq> None"
  unfolding doMerge_def
  by (rule fold_establishes [where x = t
        and R = "\<lambda>a. findResource (snd a)
                  (targetName c m (packageName srcPackage) (resourceType t) (entryName e)) \<noteq> None"])
    (simp_all add: assms mergeType_creates mergeType_monotone)



lemma mergePackages_creates:
  assumes "p \<in> set pkgs" "t \<in> set (types p)" "e \<in> set (entries t)"
  shows "findResource (snd (mergePackages rvc c m overlay True pkgs table))
           (targetName c m (packageName p) (resourceType t) (entryName e)) \<noteq> None"
  unfolding mergePackages_def
  by (rule fold_establishes [where x = p
        and R = "\<lambda>a. findResource (snd a)
                  (targetName c m (packageName p) (resourceType t) (entryName e)) \<noteq> None"])
    (simp_all add: assms doMerge_creates doMerge_monotone)










lemma onlyPackage_storePackage:
  "onlyPackage c tbl \<Longrightarrow> packageName p = c \<Longrightarrow> onlyPackage c (storePackage tbl p)"
  by (auto simp: onlyPackage_def storePackage_def list_all_iff set_insort_key)

lemma onlyPackage_updateEntry:
  "onlyPackage c tbl \<Longrightarrow> package nm = c \<Longrightarrow> onlyPackage c (updateEntry tbl nm f)"
  by (simp add: updateEntry_def Let_def onlyPackage_storePackage)

lemma onlyPackage_findResource:
  assumes "onlyPackage c tbl" "package nm \<noteq> c"
  shows "findResource tbl nm = None"
proof -
  have "findPackage tbl (package nm) = None"
    using assms by (auto simp: findPackage_def find_None_iff onlyPackage_def list_all_iff)
  then show ?thesis by (simp add: findResource_def)
qed

lemma mergeEntry_onlyPackage:
  "onlyPackage c (snd acc) \<Longrightarrow> package target = c
    \<Longrightarrow> onlyPackage c (snd (mergeEntry rvc overlay allowNew target srcEntry acc))"
  by (cases acc) (auto simp: mergeEntry_def Let_def onlyPackage_updateEntry split: prod.splits)

lemma mergeType_onlyPackage:
  "onlyPackage c (snd acc)
    \<Longrightarrow> onlyPackage c (snd (mergeType rvc c m overlay allowNew pn srcType acc))"
  unfolding mergeType_def
  by (rule fold_preserves [where P = "\<lambda>a. onlyPackage c (snd a)"])
    (simp_all add: mergeEntry_onlyPackage targetName_def)

lemma doMerge_onlyPackage:
  "onlyPackage c (snd acc)
    \<Longrightarrow> onlyPackage c (snd (doMerge rvc c m overlay allowNew srcPackage acc))"
  unfolding doMerge_def
  by (rule fold_preserves [where P = "\<lambda>a. onlyPackage c (snd a)"])
    (simp_all add: mergeType_onlyPackage)

lemma mergePackages_onlyPackage:
  "onlyPackage c table
    \<Longrightarrow> onlyPackage c (snd (mergePackages rvc c m overlay allowNew pkgs table))"
  unfolding mergePackages_def
  by (rule fold_preserves [where P = "\<lambda>a. onlyPackage c (snd a)"])
    (simp_all add: doMerge_onlyPackage)

lemma masterTable_merge:
  "masterTable (snd (merge rvc c merger srcTable))
   = snd (mergePackages rvc c False False True
            (filter (\<lambda>p. packageName p = [] \<or> packageName p = c) (packages srcTable))
            (masterTable merger))"
  by (simp add: merge_def split: prod.splits)

lemma masterTable_mergeAndMangle:
  "masterTable (snd (mergeAndMangle rvc c merger pkg srcTable))
   = snd (mergePackages rvc c True False True
            (filter (\<lambda>p. packageName p = pkg) (packages srcTable)) (masterTable merger))"
  by (simp add: mergeAndMangle_def split: prod.splits)

lemma mergedPackages_mergeAndMangle:
  "mergedPackages (snd (mergeAndMangle rvc c merger pkg srcTable))
   = insert pkg (mergedPackages merger)"
  by (simp add: mergeAndMangle_def split: prod.splits)

text \<open>
  Claim C3. Let a table \<open>A\<close> be merged into a new merger of the compilation package \<open>a\<close>,
  and then a table \<open>B\<close> be merged with \<open>mergeAndMangle\<close> for a package name \<open>b\<close> other than
  \<open>a\<close>. Then every entry \<open>b:type/entry\<close> of \<open>B\<close> is in the result under the name
  \<open>a:type/b$entry\<close>, the name \<open>b:type/entry\<close> is not in the result, and \<open>b\<close> is among the
  merged packages.
\<close>

theorem mergeAndMangle_names:
  assumes "a \<noteq> b"
    and "p \<in> set (packages tableB)"
    and "packageName p = b"
    and "t \<in> set (types p)"
    and "e \<in> set (entries t)"
  shows "findResource
           (masterTable
              (snd (mergeAndMangle rvc a (snd (merge rvc a newTableMerger tableA)) b tableB)))
           \<lparr>package = a, type = resourceType t, entry = b @ ''$'' @ entryName e\<rparr> \<noteq> None
       \<and> findResource
           (masterTable
              (snd (mergeAndMangle rvc a (snd (merge rvc a newTableMerger tableA)) b tableB)))
           \<lparr>package = b, type = resourceType t, entry = entryName e\<rparr> = None
       \<and> b \<in> mergedPackages
               (snd (mergeAndMangle rvc a (snd (merge rvc a newTableMerger tableA)) b tableB))"
proof -
  let ?m1 = "snd (merge rvc a newTableMerger tableA)"
  let ?m2 = "snd (mergeAndMangle rvc a ?m1 b tableB)"
  have p: "p \<in> set (filter (\<lambda>p. packageName p = b) (packages tableB))"
    using assms(2,3) by simp
  have tn: "targetName a True (packageName p) (resourceType t) (entryName e)
            = \<lparr>package = a, type = resourceType t, entry = b @ ''$'' @ entryName e\<rparr>"
    by (simp add: targetName_def mangleEntry_def assms(3))
  have present: "findResource (masterTable ?m2)
           \<lparr>package = a, type = resourceType t, entry = b @ ''$'' @ entryName e\<rparr> \<noteq> None"
    using mergePackages_creates [OF p assms(4,5), of rvc a True False "masterTable ?m1"]
    by (simp add: masterTable_mergeAndMangle tn)
  have "onlyPackage a (masterTable (newTableMerger :: 'a TableMerger))"
    by (simp add: onlyPackage_def newTableMerger_def)
  then have "onlyPackage a (masterTable ?m1)"
    by (simp add: masterTable_merge mergePackages_onlyPackage)
  then have "onlyPackage a (masterTable ?m2)"
    by (simp add: masterTable_mergeAndMangle mergePackages_onlyPackage)
  then have absent: "findResource (masterTable ?m2)
           \<lparr>package = b, type = resourceType t, entry = entryName e\<rparr> = None"
    using assms(1) by (simp add: onlyPackage_findResource)
  show ?thesis
    using present absent by (simp add: mergedPackages_mergeAndMangle)
qed

text \<open>The theorem on the test's packages \<open>com.app.a\<close> and \<open>com.app.b\<close>.\<close>

theorem mergeAndMangle_names_witness:
  "''com.app.a'' \<noteq> ''com.app.b''
   \<and> findResource
        (masterTable
           (snd (mergeAndMangle keepIdentical ''com.app.a''
                   (snd (merge keepIdentical ''com.app.a'' newTableMerger (tableOf ''com.app.a'')))
                   ''com.app.b'' (tableOf ''com.app.b''))))
        \<lparr>package = ''com.app.a'', type = kBool, entry = ''com.app.b$foo''\<rparr> \<noteq> None
   \<and> findResource
        (masterTable
           (snd (mergeAndMangle keepIdentical ''com.app.a''
                   (snd (merge keepIdentical ''com.app.a'' newTableMerger (tableOf ''com.app.a'')))
                   ''com.app.b'' (tableOf ''com.app.b''))))
        \<lparr>package = ''com.app.b'', type = kBool, entry = ''foo''\<rparr> = None
   \<and> ''com.app.b'' \<in> mergedPackages
        (snd (mergeAndMangle keepIdentical ''com.app.a''
                (snd (merge keepIdentical ''com.app.a'' newTableMerger (tableOf ''com.app.a'')))
                ''com.app.b'' (tableOf ''com.app.b'')))"
proof -
  have ab: "''com.app.a'' \<noteq> ''com.app.b''" by simp
  have p: "packageOf ''com.app.b'' \<in> set (packages (tableOf ''com.app.b''))"
    "packageName (packageOf ''com.app.b'') = ''com.app.b''"
    by (simp_all add: tableOf_def packageOf_def)
  have t: "boolType \<in> set (types (packageOf ''com.app.b''))" by (simp add: packageOf_def)
  have e: "fooEntry \<in> set (entries boolType)" by (simp add: boolType_def)
  show ?thesis
    using ab mergeAndMangle_names [OF ab p t e, of keepIdentical "tableOf ''com.app.a''"]
    by (simp add: boolType_def fooEntry_def)
qed

section \<open>The merger on the repository's tests\<close>

text \<open>
  The model of the merger gives what \<open>link/TableMerger_test.cpp\<close> expects:
  \<open>OverrideResourceWithOverlay\<close> (the overlay's value replaces the base's, without
  \<open>autoAddOverlay\<close>) and \<open>MergeAddResourceFromOverlay\<close> (a name that the destination has
  through \<open>setSymbolState\<close> alone can be given a value by an overlay).
\<close>

lemma test_OverrideResourceWithOverlay:
  "fst (merge keepIdentical ''com.app.a'' newTableMerger (tableOf []))
   \<and> fst (mergeOverlay keepIdentical ''com.app.a'' \<lparr>autoAddOverlay = False\<rparr>
          (snd (merge keepIdentical ''com.app.a'' newTableMerger (tableOf []))) overlayFalse)
   \<and> map_option configValues
        (findResource
          (masterTable
            (snd (mergeOverlay keepIdentical ''com.app.a'' \<lparr>autoAddOverlay = False\<rparr>
               (snd (merge keepIdentical ''com.app.a'' newTableMerger (tableOf []))) overlayFalse)))
          \<lparr>package = ''com.app.a'', type = kBool, entry = ''foo''\<rparr>)
       = Some [\<lparr>config = [], configValue = falseValue\<rparr>]"
  by code_simp

lemma test_MergeAddResourceFromOverlay:
  "fst (mergeOverlay keepIdentical ''com.app.a'' \<lparr>autoAddOverlay = False\<rparr>
          (snd (merge keepIdentical ''com.app.a'' newTableMerger
                  (snd (setSymbolState emptyTable fooName [] kUndefined))))
          (tableOf []))"
  by code_simp

text \<open>
  The file name that \<open>buildResourceFileName\<close> builds for a resource of a package that the
  mangler mangles, in the default configuration.
\<close>

lemma buildResourceFileName_mangled:
  "mangles b \<Longrightarrow>
   buildResourceFileName typeText (Some mangles) ext \<lparr>package = b, type = ty, entry = en\<rparr> []
   = ''res/'' @ typeText ty @ ''/'' @ b @ ''$'' @ en @ ext"
  by (simp add: buildResourceFileName_def mangleEntry_def)

end
